theory Spec2Isabelle
  imports Main "HOL-Library.Word"
begin

unbundle bit_operations_syntax

section \<open>The generated program and its memory\<close>

text \<open>
  The functions of \<^verbatim>\<open>topi/generic/algorithm.py\<close> do not compute on numbers: they
  build a program with the IR builder, which runs later on buffers of unsigned 64-bit
  words. A buffer read \<^verbatim>\<open>buf[i]\<close> in the Python text is an expression of that
  program, evaluated when the store that contains it executes; an assignment
  \<^verbatim>\<open>buf[i] = e\<close> emits one store. The embedding keeps the two levels apart:
  Python values of expression type are functions of the memory, emitted statements are
  functions from machine to machine, and Python loops are folds that emit their body
  once per round.
\<close>

type_synonym u64 = "64 word"

text \<open>The buffers of the two generated programs, one identity per allocation site.\<close>

datatype var =
  Gen | Out_gen | Out_array | Tmp | Tmp_counter | Out_left | Out_right
  | Threefry_tmp | Full_key

type_synonym memory = "var \<Rightarrow> nat \<Rightarrow> u64"

text \<open>
  A buffer handle as the builder holds it: which buffer, and how many elements it was
  declared or allocated with. The memory of a buffer is a function on all offsets: the
  cells at and beyond the extent are whatever lies behind the allocation.
\<close>

record buffer_var =
  handle :: var
  extent :: nat

record 'a expr =
  val :: "memory \<Rightarrow> 'a"
  reads :: "(buffer_var \<times> nat) list"

record machine =
  mem :: memory
  faults :: "(var \<times> nat) list"

definition const :: "'a \<Rightarrow> 'a expr" where
  "const c = \<lparr>val = (\<lambda>m. c), reads = []\<rparr>"

definition load :: "buffer_var \<Rightarrow> nat \<Rightarrow> u64 expr" where
  "load b i = \<lparr>val = (\<lambda>m. m (handle b) i), reads = [(b, i)]\<rparr>"

definition binop :: "('a \<Rightarrow> 'b \<Rightarrow> 'c) \<Rightarrow> 'a expr \<Rightarrow> 'b expr \<Rightarrow> 'c expr" where
  "binop f a b = \<lparr>val = (\<lambda>m. f (val a m) (val b m)), reads = reads a @ reads b\<rparr>"

definition unop :: "('a \<Rightarrow> 'b) \<Rightarrow> 'a expr \<Rightarrow> 'b expr" where
  "unop f a = \<lparr>val = (\<lambda>m. f (val a m)), reads = reads a\<rparr>"

text \<open>An access at or beyond the extent of its buffer is recorded, and still performed.\<close>

definition check :: "buffer_var \<times> nat \<Rightarrow> (var \<times> nat) list \<Rightarrow> (var \<times> nat) list" where
  "check a fs = (if snd a < extent (fst a) then fs else List.insert (handle (fst a), snd a) fs)"

definition store :: "buffer_var \<Rightarrow> nat \<Rightarrow> u64 expr \<Rightarrow> machine \<Rightarrow> machine" where
  "store b i e M =
     \<lparr>mem = (mem M)(handle b := (mem M (handle b))(i := val e (mem M))),
      faults = fold check (reads e @ [(b, i)]) (faults M)\<rparr>"

definition if_scope ::
  "bool expr \<Rightarrow> (machine \<Rightarrow> machine) \<Rightarrow> (machine \<Rightarrow> machine) \<Rightarrow> machine \<Rightarrow> machine" where
  "if_scope c then_body else_body M =
     (let M' = M\<lparr>faults := fold check (reads c) (faults M)\<rparr>
      in if val c (mem M) then then_body M' else else_body M')"

definition for_range :: "nat \<Rightarrow> (nat \<Rightarrow> machine \<Rightarrow> machine) \<Rightarrow> machine \<Rightarrow> machine" where
  "for_range n body M = fold body [0..<n] M"

definition seq :: "(machine \<Rightarrow> machine) list \<Rightarrow> machine \<Rightarrow> machine" where
  "seq ss M = fold (\<lambda>s. s) ss M"

definition allocate :: "var \<Rightarrow> nat \<Rightarrow> buffer_var" where
  "allocate v n = \<lparr>handle = v, extent = n\<rparr>"

section \<open>Threefry\<close>

definition nrounds :: nat where "nrounds = 20"
definition nwords :: nat where "nwords = 4"
definition iwidth :: nat where "iwidth = 64"

definition ROTATIONS :: "nat \<Rightarrow> nat list list" where
  "ROTATIONS w =
     (if w = 4 then
        [[14, 16], [52, 57], [23, 40], [5, 37], [25, 33], [46, 12], [58, 22], [32, 32]]
      else if w = 8 then
        [[46, 36, 19, 37], [33, 27, 14, 42], [17, 49, 36, 39], [44, 9, 54, 56],
         [39, 30, 34, 24], [13, 50, 10, 17], [25, 29, 39, 43], [8, 35, 56, 22]]
      else if w = 16 then
        [[24, 13, 8, 47, 8, 17, 22, 37], [38, 19, 10, 55, 49, 18, 23, 52],
         [33, 4, 51, 13, 34, 41, 59, 17], [5, 20, 48, 41, 47, 28, 16, 25],
         [41, 9, 37, 31, 12, 47, 44, 30], [16, 34, 56, 51, 4, 53, 42, 41],
         [31, 44, 47, 46, 19, 42, 44, 25], [9, 48, 35, 52, 23, 31, 37, 20]]
      else [])"

definition PERMUTATIONS :: "nat \<Rightarrow> nat list" where
  "PERMUTATIONS w =
     (if w = 4 then [0, 3, 2, 1]
      else if w = 8 then [2, 1, 4, 7, 6, 5, 0, 3]
      else if w = 16 then [0, 9, 2, 13, 6, 11, 4, 15, 10, 7, 12, 3, 14, 5, 8, 1]
      else [])"

text \<open>
  \<^verbatim>\<open>mix(a, b, rotation)\<close> receives two expressions and returns two expressions; nothing
  is read from memory here.
\<close>

definition mix :: "u64 expr \<Rightarrow> u64 expr \<Rightarrow> nat \<Rightarrow> u64 expr \<times> u64 expr" where
  "mix a b rotation =
     (let x = binop (+) a b;
          y = binop (XOR) x
                (binop (OR) (unop (push_bit rotation) b) (unop (drop_bit (iwidth - rotation)) b))
      in (x, y))"

text \<open>
  The variables of \<^verbatim>\<open>_threefry\<close> that change while it builds: the two buffers
  that the permutation swaps, their offsets, and the program emitted so far, kept as the
  machine it has produced.
\<close>

record threefry_vars =
  out_buf :: buffer_var
  out_offset :: nat
  tmp :: buffer_var
  tmp_offset :: nat
  mach :: machine

definition emit :: "(machine \<Rightarrow> machine) \<Rightarrow> threefry_vars \<Rightarrow> threefry_vars" where
  "emit s v = v\<lparr>mach := s (mach v)\<rparr>"

definition key_schedule :: "buffer_var \<Rightarrow> nat \<Rightarrow> nat \<Rightarrow> u64 expr" where
  "key_schedule full_key s i =
     (if i = nwords - 1
      then binop (+) (load full_key ((s + i) mod (nwords + 1))) (const (of_nat s))
      else load full_key ((s + i) mod (nwords + 1)))"

definition inject_key :: "buffer_var \<Rightarrow> nat \<Rightarrow> nat \<Rightarrow> nat \<Rightarrow> threefry_vars \<Rightarrow> threefry_vars" where
  "inject_key full_key l i j v =
     emit (store (out_buf v) (out_offset v + l * nwords + j)
             (binop (+) (load (out_buf v) (out_offset v + l * nwords + j))
                        (key_schedule full_key i j))) v"

text \<open>
  The pair assignment evaluates \<^verbatim>\<open>mix\<close> first, to two expressions over the current
  cells, and then emits the store of \<open>x\<close> followed by the store of \<open>y\<close>.
\<close>

definition mix_pair :: "nat \<Rightarrow> nat \<Rightarrow> nat \<Rightarrow> nat \<Rightarrow> threefry_vars \<Rightarrow> threefry_vars" where
  "mix_pair l i k j v =
     (let xy = mix (load (out_buf v) (out_offset v + l * nwords + j * 2 + 0))
                   (load (out_buf v) (out_offset v + l * nwords + j * 2 + 1))
                   (ROTATIONS nwords ! ((i * 4 + k) mod 8) ! j)
      in emit (store (out_buf v) (out_offset v + l * nwords + j * 2 + 1) (snd xy))
           (emit (store (out_buf v) (out_offset v + l * nwords + j * 2 + 0) (fst xy)) v))"

definition permute_word :: "nat \<Rightarrow> nat \<Rightarrow> threefry_vars \<Rightarrow> threefry_vars" where
  "permute_word l j v =
     emit (store (tmp v) (tmp_offset v + l * nwords + j)
             (load (out_buf v) (out_offset v + l * nwords + PERMUTATIONS nwords ! j))) v"

definition swap_bufs :: "threefry_vars \<Rightarrow> threefry_vars" where
  "swap_bufs v =
     v\<lparr>out_buf := tmp v, tmp := out_buf v, out_offset := tmp_offset v, tmp_offset := out_offset v\<rparr>"

definition mix_round :: "nat \<Rightarrow> nat \<Rightarrow> nat \<Rightarrow> threefry_vars \<Rightarrow> threefry_vars" where
  "mix_round l i k v =
     swap_bufs (fold (permute_word l) [0..<nwords] (fold (mix_pair l i k) [0..<nwords div 2] v))"

definition stage :: "buffer_var \<Rightarrow> nat \<Rightarrow> nat \<Rightarrow> threefry_vars \<Rightarrow> threefry_vars" where
  "stage full_key l i v =
     fold (mix_round l i) [0..<4] (fold (inject_key full_key l i) [0..<nwords] v)"

definition block_body :: "buffer_var \<Rightarrow> nat \<Rightarrow> threefry_vars \<Rightarrow> threefry_vars" where
  "block_body full_key l v = fold (stage full_key l) [0..<nrounds div 4] v"

definition init_full_key :: "buffer_var \<Rightarrow> buffer_var \<Rightarrow> nat \<Rightarrow> machine \<Rightarrow> machine" where
  "init_full_key full_key key_buf key_offset =
     seq (map (\<lambda>i. store full_key i (load key_buf (key_offset + i))) [0..<nwords]
          @ [store full_key nwords (const 0x1BD11BDAA9FC1A22)]
          @ map (\<lambda>i. store full_key nwords
                        (binop (XOR) (load full_key nwords) (load key_buf (key_offset + i))))
                [0..<nwords])"

definition init_counter ::
  "buffer_var \<Rightarrow> nat \<Rightarrow> buffer_var \<Rightarrow> nat \<Rightarrow> nat \<Rightarrow> machine \<Rightarrow> machine" where
  "init_counter counter_buf counter_offset out out_off i =
     seq (map (\<lambda>j. store out (out_off + i * nwords + j)
                      (binop (+) (load counter_buf (counter_offset + j)) (const (of_nat i))))
              [0..<nwords])"

text \<open>
  \<^verbatim>\<open>_threefry(irb, key_buf, key_offset, counter_buf, counter_offset, out_buf,
  out_offset, out_shape)\<close>. The body of the loop over \<open>l\<close> is built once, from the
  variables as they are when the loop is entered; the twenty swaps it makes leave them as
  they were.
\<close>

definition threefry ::
  "buffer_var \<Rightarrow> nat \<Rightarrow> buffer_var \<Rightarrow> nat \<Rightarrow> buffer_var \<Rightarrow> nat \<Rightarrow> nat \<Rightarrow> machine \<Rightarrow> machine" where
  "threefry key_buf key_offset counter_buf counter_offset out out_off out_shape M =
     (let tmp0 = allocate Threefry_tmp out_shape;
          full_key = allocate Full_key (nwords + 1);
          M1 = init_full_key full_key key_buf key_offset M;
          M2 = for_range out_shape (init_counter counter_buf counter_offset out out_off) M1
      in for_range out_shape
           (\<lambda>l Ml. mach (block_body full_key l
                            \<lparr>out_buf = out, out_offset = out_off, tmp = tmp0, tmp_offset = 0,
                             mach = Ml\<rparr>))
           M2)"

section \<open>The path cursor\<close>

text \<open>
  \<^verbatim>\<open>_shift_right(irb, a, b, out_a, a_off, out_b, b_off)\<close>: \<open>a\<close> and \<open>b\<close> are
  expressions, the two results are stored.
\<close>

definition shift_right ::
  "u64 expr \<Rightarrow> u64 expr \<Rightarrow> buffer_var \<Rightarrow> nat \<Rightarrow> buffer_var \<Rightarrow> nat \<Rightarrow> machine \<Rightarrow> machine" where
  "shift_right a b out_a a_off out_b b_off =
     if_scope (binop (=) a (const 1))
       (seq [store out_a a_off (const 0), store out_b b_off (const 0x8000000000000000)])
       (if_scope (binop (=) a (const 0))
          (seq [store out_a a_off (const 0), store out_b b_off (unop (drop_bit 1) b)])
          (seq [store out_a a_off (unop (drop_bit 1) a), store out_b b_off (const 0)]))"


section \<open>Generating random words\<close>

datatype error = AssertionError | AttributeError | IndexError | IndexOutOfBounds

definition gen :: buffer_var where "gen = \<lparr>handle = Gen, extent = 10\<rparr>"
definition out_gen :: buffer_var where "out_gen = \<lparr>handle = Out_gen, extent = 10\<rparr>"
definition out_array :: "int \<Rightarrow> buffer_var" where
  "out_array out_len = \<lparr>handle = Out_array, extent = nat out_len\<rparr>"
definition out_left :: buffer_var where "out_left = \<lparr>handle = Out_left, extent = 10\<rparr>"
definition out_right :: buffer_var where "out_right = \<lparr>handle = Out_right, extent = 10\<rparr>"

text \<open>
  \<^verbatim>\<open>out_len = 1; for s in out_shape: out_len *= s\<close>. The dimensions are integer
  constants of the program, of a fixed width, and so is their product: it wraps. The
  width is the type parameter (TVM shapes are 32 bits wide unless built otherwise);
  \<^verbatim>\<open>out_len.value\<close> is the signed value of the product.
\<close>

definition out_len_of :: "'w::len word list \<Rightarrow> 'w word" where
  "out_len_of out_shape = fold (\<lambda>s acc. acc * s) out_shape 1"

text \<open>\<^verbatim>\<open>gen[7] < tir.const(2 ** 64 - 1, dtype=gen.dtype) - out_len\<close>, on unsigned 64-bit words.\<close>

definition has_room :: "int \<Rightarrow> bool expr" where
  "has_room out_len =
     binop (<) (load gen 7) (binop (-) (const (2 ^ 64 - 1)) (const (word_of_int out_len)))"

text \<open>
  The condition of \<^verbatim>\<open>irb.if_scope(gen[8] == 0 and gen[9] == 0)\<close>. Python's
  \<^verbatim>\<open>and\<close> does not build a conjunction: it returns one of its two operands, and of
  the two comparisons, which are expressions of the program and not Python truth values,
  it returns the first. The test that the program makes is \<^verbatim>\<open>gen[8] == 0\<close> alone;
  word 9 of the cursor is not read.
\<close>

definition cursor_exhausted :: "bool expr" where
  "cursor_exhausted = binop (=) (load gen 8) (const 0)"

text \<open>
  The ten-word buffer that \<^verbatim>\<open>gen_ir\<close> allocates under the name \<^verbatim>\<open>tmp\<close>, for the state
  that is hashed.
\<close>

definition state_tmp :: buffer_var where "state_tmp = allocate Tmp 10"

definition copy_state :: "machine \<Rightarrow> machine" where
  "copy_state = seq (map (\<lambda>i. store state_tmp i (load gen i)) [0..<10])"

definition new_key :: "machine \<Rightarrow> machine" where
  "new_key =
     (let tmp_counter = allocate Tmp_counter 2
      in seq [store tmp_counter 0 (const 0xFFFFFFFFFFFFFFFF),
              store tmp_counter 1 (const 0xFFFFFFFFFFFFFFFF),
              threefry gen 0 tmp_counter 0 state_tmp 0 1,
              store state_tmp 4 (const 0),
              store state_tmp 5 (const 0),
              store state_tmp 6 (const 0),
              store state_tmp 7 (const 0),
              store state_tmp 8 (const (push_bit 63 1)),
              store state_tmp 9 (const 0)])"

definition extend_path :: "machine \<Rightarrow> machine" where
  "extend_path =
     seq [store state_tmp 0 (load gen 0),
          store state_tmp 1 (load gen 1),
          store state_tmp 2 (load gen 2),
          store state_tmp 3 (load gen 3),
          store state_tmp 4 (binop (OR) (load gen 4) (load gen 8)),
          store state_tmp 5 (binop (OR) (load gen 5) (load gen 9)),
          store state_tmp 6 (const 0),
          store state_tmp 7 (const 0),
          shift_right (load gen 8) (load gen 9) state_tmp 8 state_tmp 9]"

text \<open>The else branch of the test for room in the counter.\<close>

definition no_room :: "machine \<Rightarrow> machine" where
  "no_room = if_scope cursor_exhausted new_key extend_path"

definition update_state :: "int \<Rightarrow> machine \<Rightarrow> machine" where
  "update_state out_len =
     seq [store out_gen 0 (load state_tmp 0),
          store out_gen 1 (load state_tmp 1),
          store out_gen 2 (load state_tmp 2),
          store out_gen 3 (load state_tmp 3),
          store out_gen 4 (load state_tmp 4),
          store out_gen 5 (load state_tmp 5),
          store out_gen 6 (const 0),
          store out_gen 7 (binop (+) (load state_tmp 7) (const (word_of_int out_len))),
          store out_gen 8 (load state_tmp 8)]"

definition generate_ir :: "int \<Rightarrow> machine \<Rightarrow> machine" where
  "generate_ir out_len =
     seq [if_scope (has_room out_len) copy_state no_room,
          threefry state_tmp 0 state_tmp 4 (out_array out_len) 0 (nat (out_len div 4)),
          update_state out_len]"

text \<open>
  \<^verbatim>\<open>threefry_generate(gen, out_shape)\<close>: the machine holds the generator state in
  buffer \<open>Gen\<close>; the result holds the successor state in \<open>Out_gen\<close> and the random
  words in \<open>Out_array\<close>. The two assertions are checked while the program is built;
  with an empty shape \<^verbatim>\<open>out_len\<close> is the Python integer 1, which has no
  \<^verbatim>\<open>value\<close>.
\<close>

definition threefry_generate :: "'w::len word list \<Rightarrow> machine \<Rightarrow> error + machine" where
  "threefry_generate out_shape M =
     (if out_shape = [] then Inl AttributeError
      else
        let out_len = sint (out_len_of out_shape)
        in if out_len mod 4 \<noteq> 0 then Inl AssertionError
           else if \<not> out_len \<le> 2 ^ 64 - 1 then Inl AssertionError
           else Inr (generate_ir out_len M))"

section \<open>Splitting a generator\<close>

definition split_new_key :: "machine \<Rightarrow> machine" where
  "split_new_key =
     seq [threefry gen 0 gen 4 out_left 0 1,
          store out_left 4 (const 0),
          store out_left 5 (const 0),
          store out_left 6 (const 0),
          store out_left 7 (const 0),
          store out_left 8 (const (push_bit 62 1)),
          store out_left 9 (const 0),
          store out_right 0 (load out_left 0),
          store out_right 1 (load out_left 1),
          store out_right 2 (load out_left 2),
          store out_right 3 (load out_left 3),
          store out_right 4 (const (push_bit 63 1)),
          store out_right 5 (const 0),
          store out_right 6 (const 0),
          store out_right 7 (const 0),
          store out_right 8 (const (push_bit 62 1)),
          store out_right 9 (const 0)]"

definition split_extend_path :: "machine \<Rightarrow> machine" where
  "split_extend_path =
     seq [store out_left 0 (load gen 0),
          store out_left 1 (load gen 1),
          store out_left 2 (load gen 2),
          store out_left 3 (load gen 3),
          store out_left 4 (load gen 4),
          store out_left 5 (load gen 5),
          store out_left 6 (load gen 6),
          store out_left 7 (load gen 7),
          shift_right (load gen 8) (load gen 9) out_left 8 out_left 9,
          store out_right 0 (load gen 0),
          store out_right 1 (load gen 1),
          store out_right 2 (load gen 2),
          store out_right 3 (load gen 3),
          store out_right 4 (binop (OR) (load gen 4) (load gen 8)),
          store out_right 5 (binop (OR) (load gen 5) (load gen 9)),
          store out_right 6 (load gen 6),
          store out_right 7 (load gen 7),
          shift_right (load gen 8) (load gen 9) out_right 8 out_right 9]"

text \<open>
  \<^verbatim>\<open>threefry_split(gen)\<close>: the two new states are the buffers \<open>Out_left\<close> and
  \<open>Out_right\<close> of the result.
\<close>

definition threefry_split :: "machine \<Rightarrow> machine" where
  "threefry_split = if_scope cursor_exhausted split_new_key split_extend_path"


section \<open>scatter_nd\<close>

text \<open>
  \<^verbatim>\<open>scatter_nd(data, indices, shape)\<close> of \<^verbatim>\<open>topi/scatter.py\<close>. The three
  buffers are flat: \<open>data\<close> and \<open>indices\<close> are read at natural offsets, the output
  is written at the integer offset that the program computes, which nothing keeps inside
  the buffer. Index values are unbounded integers here. A failure while the program is
  built or while it runs is an error value.
\<close>

fun for_each :: "nat list \<Rightarrow> (nat \<Rightarrow> 's \<Rightarrow> error + 's) \<Rightarrow> 's \<Rightarrow> error + 's" where
  "for_each [] body s = Inr s"
| "for_each (x # xs) body s =
     (case body x s of Inl e \<Rightarrow> Inl e | Inr s' \<Rightarrow> for_each xs body s')"

definition fused :: "nat list \<Rightarrow> nat" where
  "fused dims = fold (\<lambda>i acc. acc * i) dims 1"

text \<open>Reading one dimension of a shape raises beyond its rank.\<close>

definition dim_eq :: "nat list \<Rightarrow> nat \<Rightarrow> nat list \<Rightarrow> nat \<Rightarrow> error + unit" where
  "dim_eq xs i ys j =
     (if \<not> i < length xs \<or> \<not> j < length ys then Inl IndexError
      else if xs ! i = ys ! j then Inr () else Inl AssertionError)"

text \<open>The assertions before \<^verbatim>\<open>gen_ir\<close>; the result is \<^verbatim>\<open>mdim\<close>.\<close>

definition check_args :: "nat list \<Rightarrow> nat list \<Rightarrow> nat list \<Rightarrow> error + nat" where
  "check_args data_shape indices_shape shape =
     (case indices_shape of
        [] \<Rightarrow> Inl IndexError
      | mdim # _ \<Rightarrow>
          if \<not> mdim \<le> length shape then Inl AssertionError
          else
            (case for_each [0..<length indices_shape - 1]
                    (\<lambda>i _. dim_eq indices_shape (i + 1) data_shape i) () of
               Inl e \<Rightarrow> Inl e
             | Inr _ \<Rightarrow>
                 (case for_each [mdim..<length shape]
                         (\<lambda>i _. dim_eq data_shape (i - mdim) shape i) () of
                    Inl e \<Rightarrow> Inl e
                  | Inr _ \<Rightarrow> Inr mdim)))"

text \<open>
  The loop over \<^verbatim>\<open>reversed(range(mdim))\<close>: it extends the index expression, emits
  the assertion and scales the offset. The state is \<open>(offset, index)\<close>.
\<close>

definition index_step ::
  "(nat \<Rightarrow> int) \<Rightarrow> nat list \<Rightarrow> nat \<Rightarrow> nat \<Rightarrow> nat \<Rightarrow> int \<times> int \<Rightarrow> error + int \<times> int" where
  "index_step indices shape fused_indices_dimension i l s =
     (if indices (i + l * fused_indices_dimension) < int (shape ! l)
      then Inr (fst s * int (shape ! l),
                snd s + fst s * indices (i + l * fused_indices_dimension))
      else Inl IndexOutOfBounds)"

definition scatter_one ::
  "(nat \<Rightarrow> 'a) \<Rightarrow> (nat \<Rightarrow> int) \<Rightarrow> nat list \<Rightarrow> nat \<Rightarrow> nat \<Rightarrow> nat \<Rightarrow> nat \<Rightarrow> nat \<Rightarrow>
   (int \<Rightarrow> 'a) \<Rightarrow> error + (int \<Rightarrow> 'a)" where
  "scatter_one data indices shape mdim fused_indices_dimension fused_data_dimension i j out =
     (case for_each (rev [0..<mdim]) (index_step indices shape fused_indices_dimension i)
             (int fused_data_dimension, int j) of
        Inl e \<Rightarrow> Inl e
      | Inr s \<Rightarrow> Inr (out(snd s := data (i * fused_data_dimension + j))))"

definition scatter_ir ::
  "(nat \<Rightarrow> 'a::zero) \<Rightarrow> nat list \<Rightarrow> (nat \<Rightarrow> int) \<Rightarrow> nat list \<Rightarrow> nat list \<Rightarrow> nat \<Rightarrow>
   (int \<Rightarrow> 'a) \<Rightarrow> error + (int \<Rightarrow> 'a)" where
  "scatter_ir data data_shape indices indices_shape shape mdim out =
     (let fused_shape = fused shape;
          zeroed = fold (\<lambda>i out. out(int i := 0)) [0..<fused_shape] out;
          fused_indices_dimension = fused (drop 1 indices_shape);
          fused_data_dimension = fused (drop mdim data_shape)
      in for_each [0..<fused_indices_dimension]
           (\<lambda>i. for_each [0..<fused_data_dimension]
                   (scatter_one data indices shape mdim fused_indices_dimension
                      fused_data_dimension i))
           zeroed)"

text \<open>
  The last argument is what the memory of the output buffer holds before the call; the
  result is what it holds after.
\<close>

definition scatter_nd ::
  "(nat \<Rightarrow> 'a::zero) \<Rightarrow> nat list \<Rightarrow> (nat \<Rightarrow> int) \<Rightarrow> nat list \<Rightarrow> nat list \<Rightarrow>
   (int \<Rightarrow> 'a) \<Rightarrow> error + (int \<Rightarrow> 'a)" where
  "scatter_nd data data_shape indices indices_shape shape out =
     (case check_args data_shape indices_shape shape of
        Inl e \<Rightarrow> Inl e
      | Inr mdim \<Rightarrow> scatter_ir data data_shape indices indices_shape shape mdim out)"

section \<open>Notions of the specification\<close>

text \<open>The number of set bits of a word, and of the cursor of a state held in a buffer.\<close>

definition popcount :: "u64 \<Rightarrow> nat" where
  "popcount w = length (filter (bit w) [0..<64])"

definition cursor_popcount :: "memory \<Rightarrow> var \<Rightarrow> nat" where
  "cursor_popcount m b = popcount (m b 8) + popcount (m b 9)"

text \<open>
  The block function in the words of the specification (section 4.1), on lists of words:
  extended key, key injection, mix rounds with the rotation of the list's width, the
  word permutation.
\<close>

definition rotate_left :: "u64 \<Rightarrow> nat \<Rightarrow> u64" where
  "rotate_left w rot = push_bit rot w OR drop_bit (64 - rot) w"

definition spec_extended_key :: "u64 list \<Rightarrow> u64 list" where
  "spec_extended_key key = key @ [fold (XOR) key 0x1BD11BDAA9FC1A22]"

definition spec_key_injection :: "u64 list \<Rightarrow> nat \<Rightarrow> u64 list \<Rightarrow> u64 list" where
  "spec_key_injection ek stg st =
     map (\<lambda>j. st ! j + ek ! ((stg + j) mod (length st + 1))
                + (if j = length st - 1 then of_nat stg else 0))
         [0..<length st]"

definition spec_mix_round :: "nat \<Rightarrow> u64 list \<Rightarrow> u64 list" where
  "spec_mix_round g st =
     (let mixed = concat (map (\<lambda>p. let x = st ! (2 * p) + st ! (2 * p + 1)
                                    in [x, x XOR rotate_left (st ! (2 * p + 1))
                                                  (ROTATIONS (length st) ! (g mod 8) ! p)])
                              [0..<length st div 2])
      in map (\<lambda>j. mixed ! (PERMUTATIONS (length st) ! j)) [0..<length st])"

definition spec_stage :: "u64 list \<Rightarrow> nat \<Rightarrow> u64 list \<Rightarrow> u64 list" where
  "spec_stage ek stg st =
     fold (\<lambda>r. spec_mix_round (stg * 4 + r)) [0..<4] (spec_key_injection ek stg st)"

definition spec_mix :: "u64 list \<Rightarrow> u64 list \<Rightarrow> u64 list" where
  "spec_mix key plaintext =
     fold (spec_stage (spec_extended_key key)) [0..<nrounds div 4] plaintext"

text \<open>
  The known-answer vector of Threefry-4x64 with 20 rounds for the all-zero key and
  counter, as published with the Random123 library of Salmon et al.
\<close>

definition threefry4x64_20_zero :: "u64 list" where
  "threefry4x64_20_zero =
     [0x09218ebde6c85537, 0x55941f5266d86105, 0x4bd25e16282434dc, 0xee29ec846bd2e40b]"

section \<open>What one block of the generated program computes\<close>

text \<open>
  The value of the emitted stores on the four words of a block, as a function. In a mix
  the store of \<open>x\<close> runs before the store of \<open>y\<close>, and the expression of \<open>y\<close>
  reads the first cell again: what is stored is \<open>(a + b, ((a + b) + b) XOR rotl b)\<close>.
  Lemma \<open>threefry_one_block\<close> proves that the program computes these functions.
\<close>

type_synonym block = "u64 \<times> u64 \<times> u64 \<times> u64"

definition stored_mix :: "nat \<Rightarrow> u64 \<Rightarrow> u64 \<Rightarrow> u64 \<times> u64" where
  "stored_mix rot a b =
     (a + b, ((a + b) + b) XOR (push_bit rot b OR drop_bit (64 - rot) b))"

definition block_round :: "nat \<Rightarrow> block \<Rightarrow> block" where
  "block_round g w =
     (case w of (a, b, c, d) \<Rightarrow>
        (fst (stored_mix (ROTATIONS 4 ! (g mod 8) ! 0) a b),
         snd (stored_mix (ROTATIONS 4 ! (g mod 8) ! 1) c d),
         fst (stored_mix (ROTATIONS 4 ! (g mod 8) ! 1) c d),
         snd (stored_mix (ROTATIONS 4 ! (g mod 8) ! 0) a b)))"

definition block_inject :: "(nat \<Rightarrow> u64) \<Rightarrow> nat \<Rightarrow> block \<Rightarrow> block" where
  "block_inject fk s w =
     (case w of (a, b, c, d) \<Rightarrow>
        (a + fk (s mod 5), b + fk ((s + 1) mod 5), c + fk ((s + 2) mod 5),
         d + (fk ((s + 3) mod 5) + of_nat s)))"

definition block_stage :: "(nat \<Rightarrow> u64) \<Rightarrow> nat \<Rightarrow> block \<Rightarrow> block" where
  "block_stage fk s w =
     block_round (s * 4 + 3) (block_round (s * 4 + 2) (block_round (s * 4 + 1)
       (block_round (s * 4) (block_inject fk s w))))"

definition block_fn :: "(nat \<Rightarrow> u64) \<Rightarrow> block \<Rightarrow> block" where
  "block_fn fk w =
     block_stage fk 4 (block_stage fk 3 (block_stage fk 2 (block_stage fk 1 (block_stage fk 0 w))))"

text \<open>The four cells of block \<open>l\<close> in the buffer that is \<^verbatim>\<open>out_buf\<close> at the moment.\<close>

definition cur :: "nat \<Rightarrow> threefry_vars \<Rightarrow> block" where
  "cur l v =
     (let m = mem (mach v) (handle (out_buf v)); base = out_offset v + l * nwords
      in (m base, m (base + 1), m (base + 2), m (base + 3)))"

text \<open>The five words that the program stores in \<^verbatim>\<open>full_key\<close>.\<close>

definition full_key_of :: "(nat \<Rightarrow> u64) \<Rightarrow> nat \<Rightarrow> nat \<Rightarrow> u64" where
  "full_key_of key key_offset j =
     (if j < 4 then key (key_offset + j)
      else 0x1BD11BDAA9FC1A22 XOR key key_offset XOR key (key_offset + 1)
             XOR key (key_offset + 2) XOR key (key_offset + 3))"

section \<open>Which buffers a statement leaves alone\<close>

definition keeps :: "var \<Rightarrow> (machine \<Rightarrow> machine) \<Rightarrow> bool" where
  "keeps r f = (\<forall>M. mem (f M) r = mem M r)"

definition away :: "var \<Rightarrow> threefry_vars \<Rightarrow> bool" where
  "away r v = (handle (out_buf v) \<noteq> r \<and> handle (tmp v) \<noteq> r)"

definition vkeeps :: "var \<Rightarrow> (threefry_vars \<Rightarrow> threefry_vars) \<Rightarrow> bool" where
  "vkeeps r f = (\<forall>v. away r v \<longrightarrow> away r (f v) \<and> mem (mach (f v)) r = mem (mach v) r)"

section \<open>Stores, sequences and frames\<close>

lemma mem_store:
  "mem (store b i e M) = (mem M)(handle b := (mem M (handle b))(i := val e (mem M)))"
  by (simp add: store_def)

lemma mem_store_at:
  "mem (store b i e M) r j = (if r = handle b \<and> j = i then val e (mem M) else mem M r j)"
  by (simp add: mem_store)

lemma faults_store:
  "faults (store b i e M) = fold check (reads e @ [(b, i)]) (faults M)"
  by (simp add: store_def)

lemma seq_Nil: "seq [] M = M"
  by (simp add: seq_def)

lemma seq_Cons: "seq (s # ss) M = seq ss (s M)"
  by (simp add: seq_def)

lemma seq_append: "seq (ss @ ts) M = seq ts (seq ss M)"
  by (simp add: seq_def)

lemma keepsD: "keeps r f \<Longrightarrow> mem (f M) r = mem M r"
  by (simp add: keeps_def)

lemma keeps_store: "handle b \<noteq> r \<Longrightarrow> keeps r (store b i e)"
  by (simp add: keeps_def mem_store)

lemma keeps_seq: "(\<And>s. s \<in> set ss \<Longrightarrow> keeps r s) \<Longrightarrow> keeps r (seq ss)"
proof (induction ss)
  case Nil
  then show ?case by (simp add: keeps_def seq_Nil)
next
  case (Cons s ss)
  then have "keeps r s" and "keeps r (seq ss)" by simp_all
  then show ?case by (simp add: keeps_def seq_Cons)
qed

lemma keeps_fold: "(\<And>x. x \<in> set xs \<Longrightarrow> keeps r (f x)) \<Longrightarrow> keeps r (fold f xs)"
proof (induction xs)
  case Nil
  then show ?case by (simp add: keeps_def)
next
  case (Cons x xs)
  then have "keeps r (f x)" and "keeps r (fold f xs)" by simp_all
  then show ?case by (simp add: keeps_def)
qed

lemma keeps_for_range: "(\<And>i. keeps r (body i)) \<Longrightarrow> keeps r (for_range n body)"
  using keeps_fold [of "[0..<n]" r body] by (simp add: keeps_def for_range_def)

lemma keeps_if_scope: "keeps r f \<Longrightarrow> keeps r g \<Longrightarrow> keeps r (if_scope c f g)"
  by (simp add: keeps_def if_scope_def Let_def)

lemma vkeeps_fold: "(\<And>x. vkeeps r (f x)) \<Longrightarrow> vkeeps r (fold f xs)"
proof (induction xs)
  case Nil
  then show ?case by (simp add: vkeeps_def)
next
  case (Cons x xs)
  then have "vkeeps r (f x)" and "vkeeps r (fold f xs)" by simp_all
  then show ?case by (simp add: vkeeps_def)
qed

lemma vkeeps_inject_key: "vkeeps r (inject_key fk l i j)"
  by (simp add: vkeeps_def away_def inject_key_def emit_def mem_store)

lemma vkeeps_mix_pair: "vkeeps r (mix_pair l i k j)"
  by (simp add: vkeeps_def away_def mix_pair_def emit_def mem_store Let_def)

lemma vkeeps_permute_word: "vkeeps r (permute_word l j)"
  by (simp add: vkeeps_def away_def permute_word_def emit_def mem_store)

lemma vkeeps_swap_bufs: "vkeeps r swap_bufs"
  by (simp add: vkeeps_def away_def swap_bufs_def)

lemma vkeeps_mix_round: "vkeeps r (mix_round l i k)"
  using vkeeps_fold [of r "mix_pair l i k" "[0..<nwords div 2]", OF vkeeps_mix_pair]
    vkeeps_fold [of r "permute_word l" "[0..<nwords]", OF vkeeps_permute_word]
    vkeeps_swap_bufs [of r]
  by (simp add: vkeeps_def mix_round_def)

lemma vkeeps_stage: "vkeeps r (stage fk l i)"
  using vkeeps_fold [of r "inject_key fk l i" "[0..<nwords]", OF vkeeps_inject_key]
    vkeeps_fold [of r "mix_round l i" "[0..<4]", OF vkeeps_mix_round]
  by (simp add: vkeeps_def stage_def)

lemma vkeeps_block_body: "vkeeps r (block_body fk l)"
  using vkeeps_fold [of r "stage fk l" "[0..<nrounds div 4]", OF vkeeps_stage]
  by (simp add: vkeeps_def block_body_def)

lemma keeps_init_full_key: "r \<noteq> Full_key \<Longrightarrow> keeps r (init_full_key (allocate Full_key n) kb ko)"
  unfolding init_full_key_def
  by (rule keeps_seq) (auto simp: allocate_def intro!: keeps_store)

lemma keeps_init_counter: "handle out \<noteq> r \<Longrightarrow> keeps r (init_counter cb co out oo i)"
  unfolding init_counter_def
  by (rule keeps_seq) (auto intro!: keeps_store)

lemma keeps_threefry:
  assumes "r \<noteq> handle out" and "r \<noteq> Threefry_tmp" and "r \<noteq> Full_key"
  shows "keeps r (threefry kb ko cb co out oo n)"
proof -
  have body: "keeps r (\<lambda>Ml. mach (block_body (allocate Full_key (nwords + 1)) l
                 \<lparr>out_buf = out, out_offset = oo, tmp = allocate Threefry_tmp n, tmp_offset = 0,
                  mach = Ml\<rparr>))" for l
    using vkeeps_block_body [of r "allocate Full_key (nwords + 1)" l] assms
    by (simp add: vkeeps_def keeps_def away_def allocate_def)
  have k1: "keeps r (init_full_key (allocate Full_key (nwords + 1)) kb ko)"
    using assms by (intro keeps_init_full_key)
  have k2: "keeps r (for_range n (init_counter cb co out oo))"
    using assms by (intro keeps_for_range keeps_init_counter) simp
  have k3: "keeps r (for_range n (\<lambda>l Ml. mach (block_body (allocate Full_key (nwords + 1)) l
                 \<lparr>out_buf = out, out_offset = oo, tmp = allocate Threefry_tmp n, tmp_offset = 0,
                  mach = Ml\<rparr>)))"
    by (intro keeps_for_range body)
  show ?thesis
    using k1 k2 k3 by (simp add: keeps_def threefry_def Let_def)
qed


section \<open>Values of expressions and the effect of the generated blocks\<close>

lemma val_load: "val (load b i) m = m (handle b) i"
  by (simp add: load_def)

lemma val_const: "val (const c) m = c"
  by (simp add: const_def)

lemma val_binop: "val (binop f a b) m = f (val a m) (val b m)"
  by (simp add: binop_def)

lemma val_unop: "val (unop f a) m = f (val a m)"
  by (simp add: unop_def)

lemma handles:
  "handle gen = Gen" "handle out_gen = Out_gen" "handle (out_array n) = Out_array"
  "handle state_tmp = Tmp" "handle out_left = Out_left" "handle out_right = Out_right"
  "handle (allocate v k) = v"
  by (simp_all add: gen_def out_gen_def out_array_def state_tmp_def out_left_def out_right_def
      allocate_def)

lemma mem_update_state:
  "mem (update_state n M) =
     (mem M)(Out_gen := (\<lambda>i. if i \<in> {0, 1, 2, 3, 4, 5, 8} then mem M Tmp i
                            else if i = 6 then 0
                            else if i = 7 then mem M Tmp 7 + word_of_int n
                            else mem M Out_gen i))"
  by (rule ext, rule ext)
    (simp add: update_state_def seq_Cons seq_Nil mem_store val_load val_const val_binop handles)

lemma mem_copy_loop:
  "handle b \<noteq> handle g \<Longrightarrow>
   mem (seq (map (\<lambda>i. store b i (load g i)) [0..<n]) M) =
     (mem M)(handle b := (\<lambda>i. if i < n then mem M (handle g) i else mem M (handle b) i))"
proof (induction n)
  case 0
  then show ?case by (simp add: seq_Nil)
next
  case (Suc n)
  then show ?case
    by (auto simp: seq_append seq_Cons seq_Nil mem_store val_load fun_eq_iff)
qed

lemma mem_copy_state:
  "mem (copy_state M) = (mem M)(Tmp := (\<lambda>i. if i < 10 then mem M Gen i else mem M Tmp i))"
  using mem_copy_loop [of state_tmp gen 10 M] by (simp add: copy_state_def handles cong: if_cong)

lemma in_bounds: "i < extent b \<Longrightarrow> check (b, i) fs = fs"
  by (simp add: check_def)

lemma extents:
  "extent gen = 10" "extent out_gen = 10" "extent state_tmp = 10" "extent out_left = 10"
  "extent out_right = 10" "extent (allocate v k) = k"
  by (simp_all add: gen_def out_gen_def state_tmp_def out_left_def out_right_def allocate_def)

lemma keeps_shift_right:
  "handle out_a \<noteq> r \<Longrightarrow> handle out_b \<noteq> r \<Longrightarrow> keeps r (shift_right a b out_a a_off out_b b_off)"
  unfolding shift_right_def
  by (intro keeps_if_scope keeps_seq) (auto intro!: keeps_store)

lemma mem_shift_right:
  "h \<noteq> handle out \<Longrightarrow>
   mem (shift_right (load \<lparr>handle = h, extent = e\<rparr> 8) (load \<lparr>handle = h, extent = e\<rparr> 9) out 8 out 9 M) (handle out) =
     (mem M (handle out))
       (8 := (if mem M h 8 = 1 \<or> mem M h 8 = 0 then 0 else drop_bit 1 (mem M h 8)),
        9 := (if mem M h 8 = 1 then 0x8000000000000000
              else if mem M h 8 = 0 then drop_bit 1 (mem M h 9) else 0))"
  by (simp add: shift_right_def if_scope_def Let_def seq_Cons seq_Nil mem_store
      val_load val_const val_binop val_unop)

lemma mem_extend_path:
  "mem (extend_path M) =
     (mem M)(Tmp := (mem M Tmp)
        (0 := mem M Gen 0, 1 := mem M Gen 1, 2 := mem M Gen 2, 3 := mem M Gen 3,
         4 := mem M Gen 4 OR mem M Gen 8, 5 := mem M Gen 5 OR mem M Gen 9,
         6 := 0, 7 := 0,
         8 := (if mem M Gen 8 = 1 \<or> mem M Gen 8 = 0 then 0 else drop_bit 1 (mem M Gen 8)),
         9 := (if mem M Gen 8 = 1 then 0x8000000000000000
               else if mem M Gen 8 = 0 then drop_bit 1 (mem M Gen 9) else 0)))"
proof -
  define M8 where "M8 = seq [store state_tmp 0 (load gen 0),
          store state_tmp 1 (load gen 1),
          store state_tmp 2 (load gen 2),
          store state_tmp 3 (load gen 3),
          store state_tmp 4 (binop (OR) (load gen 4) (load gen 8)),
          store state_tmp 5 (binop (OR) (load gen 5) (load gen 9)),
          store state_tmp 6 (const 0),
          store state_tmp 7 (const 0)] M"
  have m8: "mem M8 =
     (mem M)(Tmp := (mem M Tmp)
        (0 := mem M Gen 0, 1 := mem M Gen 1, 2 := mem M Gen 2, 3 := mem M Gen 3,
         4 := mem M Gen 4 OR mem M Gen 8, 5 := mem M Gen 5 OR mem M Gen 9,
         6 := 0, 7 := 0))"
    by (simp add: M8_def seq_Cons seq_Nil mem_store val_load val_const val_binop handles)
  have e: "extend_path M = shift_right (load gen 8) (load gen 9) state_tmp 8 state_tmp 9 M8"
    by (simp add: M8_def extend_path_def seq_Cons seq_Nil)
  have others: "mem (extend_path M) r = mem M8 r" if "r \<noteq> Tmp" for r
    unfolding e using keeps_shift_right [of state_tmp r state_tmp] that
    by (simp add: keeps_def handles)
  have t: "mem (extend_path M) Tmp = (mem M8 Tmp)
       (8 := (if mem M8 Gen 8 = 1 \<or> mem M8 Gen 8 = 0 then 0 else drop_bit 1 (mem M8 Gen 8)),
        9 := (if mem M8 Gen 8 = 1 then 0x8000000000000000
              else if mem M8 Gen 8 = 0 then drop_bit 1 (mem M8 Gen 9) else 0))"
    unfolding e using mem_shift_right [of Gen state_tmp 10 M8]
    by (simp add: handles gen_def)
  show ?thesis
  proof (rule ext)
    fix r
    show "mem (extend_path M) r = ((mem M)(Tmp := (mem M Tmp)
        (0 := mem M Gen 0, 1 := mem M Gen 1, 2 := mem M Gen 2, 3 := mem M Gen 3,
         4 := mem M Gen 4 OR mem M Gen 8, 5 := mem M Gen 5 OR mem M Gen 9,
         6 := 0, 7 := 0,
         8 := (if mem M Gen 8 = 1 \<or> mem M Gen 8 = 0 then 0 else drop_bit 1 (mem M Gen 8)),
         9 := (if mem M Gen 8 = 1 then 0x8000000000000000
               else if mem M Gen 8 = 0 then drop_bit 1 (mem M Gen 9) else 0)))) r"
    proof (cases "r = Tmp")
      case True
      then show ?thesis by (simp add: t m8)
    next
      case False
      then show ?thesis by (simp add: others m8)
    qed
  qed
qed

lemma mem_faults_update: "mem (M\<lparr>faults := fs\<rparr>) = mem M"
  by simp

lemma mem_if_scope:
  "mem (if_scope c f g M) =
     (if val c (mem M) then mem (f (M\<lparr>faults := fold check (reads c) (faults M)\<rparr>))
      else mem (g (M\<lparr>faults := fold check (reads c) (faults M)\<rparr>)))"
  by (simp add: if_scope_def Let_def)

lemma generate_ir_eq:
  "generate_ir n M =
     update_state n (threefry state_tmp 0 state_tmp 4 (out_array n) 0 (nat (n div 4))
       (if_scope (has_room n) copy_state no_room M))"
  by (simp add: generate_ir_def seq_Cons seq_Nil)

lemma mem_threefry_other:
  "r \<noteq> handle out \<Longrightarrow> r \<noteq> Threefry_tmp \<Longrightarrow> r \<noteq> Full_key \<Longrightarrow>
   mem (threefry kb ko cb co out oo k M) r = mem M r"
  using keeps_threefry [of r out kb ko cb co oo k] by (simp add: keeps_def)

lemma mem_generate_ir:
  "mem (generate_ir n M) Out_gen =
     (let t = mem (if_scope (has_room n) copy_state no_room M) Tmp;
          g = mem (if_scope (has_room n) copy_state no_room M) Out_gen
      in g(0 := t 0, 1 := t 1, 2 := t 2, 3 := t 3, 4 := t 4, 5 := t 5, 6 := 0,
           7 := t 7 + word_of_int n, 8 := t 8))"
  by (rule ext)
    (simp add: generate_ir_eq mem_update_state mem_threefry_other handles Let_def)

lemma mem_generate_ir_tmp:
  "mem (generate_ir n M) Tmp = mem (if_scope (has_room n) copy_state no_room M) Tmp"
  by (simp add: generate_ir_eq mem_update_state mem_threefry_other handles)

lemma val_has_room:
  "val (has_room n) m = (m Gen 7 < (2 ^ 64 - 1) - word_of_int n)"
  by (simp add: has_room_def val_binop val_load val_const handles)

lemma uint_room:
  assumes "0 \<le> n" and "n \<le> 2 ^ 64 - 1"
  shows "uint ((2 ^ 64 - 1 :: u64) - word_of_int n) = 2 ^ 64 - 1 - n"
proof -
  have "uint (word_of_int n :: u64) = n"
    using assms by (simp add: uint_word_of_int take_bit_eq_mod)
  moreover have "uint (2 ^ 64 - 1 :: u64) = 2 ^ 64 - 1"
    by simp
  ultimately show ?thesis
    using assms by (simp add: uint_sub_if_size word_size)
qed

lemma has_room_iff:
  assumes "0 \<le> n" and "n \<le> 2 ^ 64 - 1"
  shows "val (has_room n) m = (uint (m Gen 7) < 2 ^ 64 - 1 - n)"
  using uint_room [OF assms] by (simp add: val_has_room word_less_def)

lemma keeps_new_key:
  "r \<noteq> Tmp \<Longrightarrow> r \<noteq> Tmp_counter \<Longrightarrow> r \<noteq> Threefry_tmp \<Longrightarrow> r \<noteq> Full_key \<Longrightarrow> keeps r new_key"
  unfolding new_key_def Let_def
  by (rule keeps_seq) (auto simp: handles intro!: keeps_store keeps_threefry)

lemma mem_new_key_tail:
  "4 \<le> i \<Longrightarrow> i < 10 \<Longrightarrow>
   mem (new_key M) Tmp i = (if i = 8 then push_bit 63 1 else 0)"
  by (simp add: new_key_def Let_def seq_Cons seq_Nil mem_store val_const handles)

lemma mem_no_room_counter: "mem (no_room M) Tmp 7 = 0"
  by (simp add: no_room_def mem_if_scope mem_extend_path mem_new_key_tail)

section \<open>The block function\<close>

lemma upts: "[0..<1] = [0]" "[0..<2] = [0, 1]" "[0..<4] = [0, 1, 2, 3]" "[0..<5] = [0, 1, 2, 3, 4]"
  by (simp_all add: upt_rec)

lemma add3: "x + 3 = Suc (Suc (Suc x))"
  by simp

lemma mix_round_cur:
  assumes "handle (out_buf v) \<noteq> handle (tmp v)"
  shows "cur l (mix_round l i k v) = block_round (i * 4 + k) (cur l v)"
    and "out_buf (mix_round l i k v) = tmp v"
    and "tmp (mix_round l i k v) = out_buf v"
    and "out_offset (mix_round l i k v) = tmp_offset v"
    and "tmp_offset (mix_round l i k v) = out_offset v"
  using assms
  by (simp_all add: add3 cur_def mix_round_def swap_bufs_def permute_word_def mix_pair_def mix_def
      emit_def upts nwords_def iwidth_def Let_def mem_store_at val_load val_binop val_unop
      block_round_def stored_mix_def PERMUTATIONS_def)

lemma inject_cur:
  assumes "handle fk \<noteq> handle (out_buf v)"
  shows "cur l (fold (inject_key fk l i) [0..<nwords] v)
           = block_inject (mem (mach v) (handle fk)) i (cur l v)"
    and "out_buf (fold (inject_key fk l i) [0..<nwords] v) = out_buf v"
    and "tmp (fold (inject_key fk l i) [0..<nwords] v) = tmp v"
    and "out_offset (fold (inject_key fk l i) [0..<nwords] v) = out_offset v"
    and "tmp_offset (fold (inject_key fk l i) [0..<nwords] v) = tmp_offset v"
  using assms
  by (simp_all add: add3 cur_def inject_key_def key_schedule_def emit_def upts
      nwords_def Let_def mem_store_at val_load val_binop val_const block_inject_def)

lemma vkeepsD:
  "vkeeps r f \<Longrightarrow> handle (out_buf v) \<noteq> r \<Longrightarrow> handle (tmp v) \<noteq> r \<Longrightarrow>
   mem (mach (f v)) r = mem (mach v) r"
  by (simp add: vkeeps_def away_def)

lemma stage_cur:
  assumes d: "handle (out_buf v) \<noteq> handle (tmp v)"
    and k: "handle fk \<noteq> handle (out_buf v)" "handle fk \<noteq> handle (tmp v)"
  shows "cur l (stage fk l i v) = block_stage (mem (mach v) (handle fk)) i (cur l v)"
    and "out_buf (stage fk l i v) = out_buf v"
    and "tmp (stage fk l i v) = tmp v"
    and "out_offset (stage fk l i v) = out_offset v"
    and "tmp_offset (stage fk l i v) = tmp_offset v"
    and "mem (mach (stage fk l i v)) (handle fk) = mem (mach v) (handle fk)"
proof -
  define v0 where "v0 = fold (inject_key fk l i) [0..<nwords] v"
  define v1 where "v1 = mix_round l i 0 v0"
  define v2 where "v2 = mix_round l i 1 v1"
  define v3 where "v3 = mix_round l i 2 v2"
  have s: "stage fk l i v = mix_round l i 3 v3"
    by (simp add: stage_def upts v0_def v1_def v2_def v3_def)
  have i0: "cur l v0 = block_inject (mem (mach v) (handle fk)) i (cur l v)"
    "out_buf v0 = out_buf v" "tmp v0 = tmp v" "out_offset v0 = out_offset v"
    "tmp_offset v0 = tmp_offset v"
    unfolding v0_def using inject_cur [OF k(1)] by simp_all
  have d0: "handle (out_buf v0) \<noteq> handle (tmp v0)" using d i0 by simp
  note r1 = mix_round_cur [OF d0, of l i 0, folded v1_def]
  have d1: "handle (out_buf v1) \<noteq> handle (tmp v1)" using d0 r1 by simp
  note r2 = mix_round_cur [OF d1, of l i 1, folded v2_def]
  have d2: "handle (out_buf v2) \<noteq> handle (tmp v2)" using d1 r2 by simp
  note r3 = mix_round_cur [OF d2, of l i 2, folded v3_def]
  have d3: "handle (out_buf v3) \<noteq> handle (tmp v3)" using d2 r3 by simp
  note r4 = mix_round_cur [OF d3, of l i 3, folded s]
  show "cur l (stage fk l i v) = block_stage (mem (mach v) (handle fk)) i (cur l v)"
    by (simp add: r4 r3 r2 r1 i0 block_stage_def)
  show "out_buf (stage fk l i v) = out_buf v" "tmp (stage fk l i v) = tmp v"
    "out_offset (stage fk l i v) = out_offset v" "tmp_offset (stage fk l i v) = tmp_offset v"
    by (simp_all add: r4 r3 r2 r1 i0)
  show "mem (mach (stage fk l i v)) (handle fk) = mem (mach v) (handle fk)"
    using vkeepsD [OF vkeeps_stage, of v "handle fk" fk l i] k by simp
qed

lemma block_body_cur:
  assumes d: "handle (out_buf v) \<noteq> handle (tmp v)"
    and k: "handle fk \<noteq> handle (out_buf v)" "handle fk \<noteq> handle (tmp v)"
  shows "cur l (block_body fk l v) = block_fn (mem (mach v) (handle fk)) (cur l v)"
    and "out_buf (block_body fk l v) = out_buf v"
    and "out_offset (block_body fk l v) = out_offset v"
proof -
  define v1 where "v1 = stage fk l 0 v"
  define v2 where "v2 = stage fk l 1 v1"
  define v3 where "v3 = stage fk l 2 v2"
  define v4 where "v4 = stage fk l 3 v3"
  have b: "block_body fk l v = stage fk l 4 v4"
    by (simp add: block_body_def nrounds_def upts v1_def v2_def v3_def v4_def)
  note s1 = stage_cur [OF d k, of l 0, folded v1_def]
  have h1: "handle (out_buf v1) \<noteq> handle (tmp v1)" "handle fk \<noteq> handle (out_buf v1)"
    "handle fk \<noteq> handle (tmp v1)" using d k s1 by simp_all
  note s2 = stage_cur [OF h1, of l 1, folded v2_def]
  have h2: "handle (out_buf v2) \<noteq> handle (tmp v2)" "handle fk \<noteq> handle (out_buf v2)"
    "handle fk \<noteq> handle (tmp v2)" using h1 s2 by simp_all
  note s3 = stage_cur [OF h2, of l 2, folded v3_def]
  have h3: "handle (out_buf v3) \<noteq> handle (tmp v3)" "handle fk \<noteq> handle (out_buf v3)"
    "handle fk \<noteq> handle (tmp v3)" using h2 s3 by simp_all
  note s4 = stage_cur [OF h3, of l 3, folded v4_def]
  have h4: "handle (out_buf v4) \<noteq> handle (tmp v4)" "handle fk \<noteq> handle (out_buf v4)"
    "handle fk \<noteq> handle (tmp v4)" using h3 s4 by simp_all
  note s5 = stage_cur [OF h4, of l 4, folded b]
  show "cur l (block_body fk l v) = block_fn (mem (mach v) (handle fk)) (cur l v)"
    by (simp add: s5 s4 s3 s2 s1 block_fn_def)
  show "out_buf (block_body fk l v) = out_buf v" "out_offset (block_body fk l v) = out_offset v"
    by (simp_all add: s5 s4 s3 s2 s1)
qed

lemma mem_init_full_key:
  assumes "handle kb \<noteq> Full_key" and "j < 5"
  shows "mem (init_full_key (allocate Full_key 5) kb ko M) Full_key j
           = full_key_of (mem M (handle kb)) ko j"
proof -
  from assms(2) consider "j = 0" | "j = 1" | "j = 2" | "j = 3" | "j = 4" by linarith
  then show ?thesis
    using assms(1)
    by cases
      (simp_all add: init_full_key_def nwords_def upts seq_Cons seq_Nil mem_store_at val_load
        val_const val_binop full_key_of_def handles add3 xor.assoc)
qed

lemma block_fn_cong:
  assumes "\<And>j. j < 5 \<Longrightarrow> fk j = fk' j"
  shows "block_fn fk w = block_fn fk' w"
proof -
  have "block_inject fk s u = block_inject fk' s u" for s u
    by (simp add: block_inject_def assms split: prod.splits)
  then have "block_stage fk s u = block_stage fk' s u" for s u
    by (simp add: block_stage_def)
  then show ?thesis by (simp add: block_fn_def)
qed

lemma threefry_one_block:
  assumes o: "handle out \<noteq> Threefry_tmp" "handle out \<noteq> Full_key"
    and kb: "handle kb \<noteq> Full_key"
    and cb: "handle cb \<noteq> Full_key" "handle cb \<noteq> handle out"
  shows "(let m = mem (threefry kb ko cb co out oo 1 M) (handle out)
          in (m oo, m (oo + 1), m (oo + 2), m (oo + 3)))
       = block_fn (full_key_of (mem M (handle kb)) ko)
           (let c = mem M (handle cb) in (c co, c (co + 1), c (co + 2), c (co + 3)))"
proof -
  define fk where "fk = allocate Full_key (nwords + 1)"
  define M1 where "M1 = init_full_key fk kb ko M"
  define M2 where "M2 = init_counter cb co out oo 0 M1"
  define v0 where "v0 = \<lparr>out_buf = out, out_offset = oo, tmp = allocate Threefry_tmp 1,
                         tmp_offset = 0, mach = M2\<rparr>"
  have t: "threefry kb ko cb co out oo 1 M = mach (block_body fk 0 v0)"
    by (simp add: threefry_def Let_def for_range_def upts fk_def M1_def M2_def v0_def)
  have h: "handle (out_buf v0) \<noteq> handle (tmp v0)" "handle fk \<noteq> handle (out_buf v0)"
    "handle fk \<noteq> handle (tmp v0)"
    using o by (auto simp: v0_def fk_def handles)
  note b = block_body_cur [OF h, of 0]
  have c1: "mem M1 (handle cb) = mem M (handle cb)"
    unfolding M1_def fk_def using keeps_init_full_key [of "handle cb" "nwords + 1" kb ko] cb
    by (simp add: keeps_def)
  have k2: "mem M2 Full_key = mem M1 Full_key"
    unfolding M2_def using keeps_init_counter [of out Full_key cb co oo 0] o
    by (simp add: keeps_def)
  have k1: "mem M1 Full_key j = full_key_of (mem M (handle kb)) ko j" if "j < 5" for j
    unfolding M1_def fk_def using mem_init_full_key [OF kb that, of ko M]
    by (simp add: nwords_def)
  have c2: "cur 0 v0 = (let c = mem M (handle cb) in (c co, c (co + 1), c (co + 2), c (co + 3)))"
    using cb
    by (simp add: cur_def v0_def M2_def init_counter_def nwords_def upts seq_Cons seq_Nil
        mem_store_at val_load val_binop val_const Let_def c1 add3)
  have ob: "out_buf (block_body fk 0 v0) = out" "out_offset (block_body fk 0 v0) = oo"
    using b(2,3) by (simp_all add: v0_def)
  have "(let m = mem (threefry kb ko cb co out oo 1 M) (handle out)
          in (m oo, m (oo + 1), m (oo + 2), m (oo + 3))) = cur 0 (block_body fk 0 v0)"
    unfolding t cur_def by (simp add: ob Let_def)
  also have "\<dots> = block_fn (mem M2 Full_key) (cur 0 v0)"
  proof -
    have "mach v0 = M2" "handle fk = Full_key" by (simp_all add: v0_def fk_def handles)
    then show ?thesis using b(1) by simp
  qed
  also have "\<dots> = block_fn (full_key_of (mem M (handle kb)) ko) (cur 0 v0)"
    by (rule block_fn_cong) (simp add: k2 k1)
  finally show ?thesis by (simp add: c2)
qed

lemma block_fn_zero:
  "block_fn (full_key_of (\<lambda>_. 0) 0) (0, 0, 0, 0)
     = (0x962b06cc22e7230e, 0xc1f1c81efbcd382b, 0xa413346e4381ff0c, 0xc11c637d3677f887)"
  by (simp add: block_fn_def block_stage_def block_inject_def block_round_def stored_mix_def
      full_key_of_def ROTATIONS_def)

text \<open>
  The block function of the specification's section 4.1 on the all-zero input, and the
  published vector: they differ by the key injection that Threefry makes after the last
  round (subkey 5, which for a zero key adds 5 to the last word).
\<close>

lemma spec_mix_zero:
  "spec_mix [0, 0, 0, 0] [0, 0, 0, 0]
     = [0x09218ebde6c85537, 0x55941f5266d86105, 0x4bd25e16282434dc, 0xee29ec846bd2e406]"
  by (simp add: spec_mix_def spec_stage_def spec_mix_round_def spec_key_injection_def
      spec_extended_key_def rotate_left_def nrounds_def upts ROTATIONS_def PERMUTATIONS_def
      Let_def)

lemma spec_mix_zero_final_injection:
  "spec_key_injection (spec_extended_key [0, 0, 0, 0]) 5 (spec_mix [0, 0, 0, 0] [0, 0, 0, 0])
     = threefry4x64_20_zero"
  unfolding spec_mix_zero
  by (simp add: spec_key_injection_def spec_extended_key_def threefry4x64_20_zero_def upts)

text \<open>
  C3. With the all-zero key and the all-zero plaintext (one block) the program does not
  return the published Threefry-4x64-20 vector.
\<close>

theorem threefry_zero_block:
  "(let m = mem (threefry gen 0 gen 4 out_left 0 1 \<lparr>mem = (\<lambda>_ _. 0), faults = []\<rparr>) Out_left
    in [m 0, m 1, m 2, m 3])
     = [0x962b06cc22e7230e, 0xc1f1c81efbcd382b, 0xa413346e4381ff0c, 0xc11c637d3677f887]
   \<and> (let m = mem (threefry gen 0 gen 4 out_left 0 1 \<lparr>mem = (\<lambda>_ _. 0), faults = []\<rparr>) Out_left
      in [m 0, m 1, m 2, m 3]) \<noteq> threefry4x64_20_zero"
proof -
  define T where "T = threefry gen 0 gen 4 out_left 0 1 \<lparr>mem = (\<lambda>_ _. 0), faults = []\<rparr>"
  have "(let m = mem T (handle out_left) in (m 0, m (0 + 1), m (0 + 2), m (0 + 3)))
        = block_fn (full_key_of (mem \<lparr>mem = (\<lambda>_ _. 0), faults = []\<rparr> (handle gen)) 0)
            (let c = mem \<lparr>mem = (\<lambda>_ _. 0), faults = []\<rparr> (handle gen)
             in (c 4, c (4 + 1), c (4 + 2), c (4 + 3)))"
    unfolding T_def by (rule threefry_one_block) (simp_all add: handles)
  then have h: "(mem T Out_left 0, mem T Out_left (Suc 0), mem T Out_left (Suc (Suc 0)),
                 mem T Out_left 3)
        = (0x962b06cc22e7230e, 0xc1f1c81efbcd382b, 0xa413346e4381ff0c, 0xc11c637d3677f887)"
    by (simp add: handles Let_def block_fn_zero)
  have e: "mem T Out_left 2 = mem T Out_left (Suc (Suc 0))"
    by (simp add: numeral_2_eq_2)
  have vals: "[mem T Out_left 0, mem T Out_left 1, mem T Out_left 2, mem T Out_left 3]
        = [0x962b06cc22e7230e, 0xc1f1c81efbcd382b, 0xa413346e4381ff0c, 0xc11c637d3677f887]"
    using h e by simp
  show ?thesis
    unfolding Let_def T_def [symmetric] vals by (simp add: threefry4x64_20_zero_def)
qed

section \<open>The cursor shift\<close>

text \<open>
  C7. Shifting a cursor given as the two words \<open>(hi, lo)\<close> stores \<open>(0, 0x8000000000000000)\<close>
  when \<open>hi = 1\<close>, \<open>(0, lo >> 1)\<close> when \<open>hi = 0\<close>, and \<open>(hi >> 1, 0)\<close> otherwise; the
  two results are words 8 and 9 of the target buffer, as at every call.
\<close>

theorem shift_right_cases:
  "(let M' = shift_right (const hi) (const lo) out 8 out 9 M
    in (mem M' (handle out) 8, mem M' (handle out) 9)) =
   (if hi = 1 then (0, 0x8000000000000000)
    else if hi = 0 then (0, drop_bit 1 lo)
    else (drop_bit 1 hi, 0))"
  by (simp add: shift_right_def if_scope_def seq_Cons seq_Nil mem_store const_def binop_def
      unop_def Let_def)

section \<open>The counter of the successor state\<close>

lemma generate_valid:
  assumes "sint (out_len_of out_shape) = n" and "n mod 4 = 0" and "n \<le> 2 ^ 64 - 1"
  shows "threefry_generate out_shape M = Inr (generate_ir n M)"
proof -
  have "out_shape \<noteq> []"
  proof
    assume "out_shape = []"
    then have "n = sint (1 :: 'a word)" using assms(1) by (simp add: out_len_of_def)
    then have "n = 1 \<or> n = - 1" by (simp split: if_splits)
    then show False using assms(2) by auto
  qed
  then show ?thesis using assms by (simp add: threefry_generate_def Let_def)
qed

lemma mem_new_key_head:
  "(mem (new_key M) Tmp 0, mem (new_key M) Tmp 1, mem (new_key M) Tmp 2, mem (new_key M) Tmp 3)
     = block_fn (full_key_of (mem M Gen) 0)
         (0xFFFFFFFFFFFFFFFF, 0xFFFFFFFFFFFFFFFF, mem M Tmp_counter 2, mem M Tmp_counter 3)"
proof -
  define tc where "tc = allocate Tmp_counter 2"
  define M1 where "M1 = store tc 1 (const 0xFFFFFFFFFFFFFFFF) (store tc 0 (const 0xFFFFFFFFFFFFFFFF) M)"
  define T where "T = threefry gen 0 tc 0 state_tmp 0 1 M1"
  have nk: "mem (new_key M) Tmp i = mem T Tmp i" if "i < 4" for i
    using that
    by (simp add: new_key_def Let_def seq_Cons seq_Nil mem_store_at handles T_def M1_def tc_def)
  have "(let m = mem T (handle state_tmp) in (m 0, m (0 + 1), m (0 + 2), m (0 + 3)))
        = block_fn (full_key_of (mem M1 (handle gen)) 0)
            (let c = mem M1 (handle tc) in (c 0, c (0 + 1), c (0 + 2), c (0 + 3)))"
    unfolding T_def by (rule threefry_one_block) (simp_all add: handles tc_def)
  moreover have "mem M1 Gen = mem M Gen"
    by (simp add: M1_def tc_def mem_store handles)
  moreover have "mem M1 Tmp_counter 0 = 0xFFFFFFFFFFFFFFFF"
    "mem M1 Tmp_counter (Suc 0) = 0xFFFFFFFFFFFFFFFF"
    "mem M1 Tmp_counter (Suc (Suc 0)) = mem M Tmp_counter 2"
    "mem M1 Tmp_counter 3 = mem M Tmp_counter 3"
    by (simp_all add: M1_def tc_def mem_store_at val_const handles numeral_2_eq_2)
  ultimately have h: "(mem T Tmp 0, mem T Tmp (Suc 0), mem T Tmp (Suc (Suc 0)), mem T Tmp 3)
        = block_fn (full_key_of (mem M Gen) 0)
            (0xFFFFFFFFFFFFFFFF, 0xFFFFFFFFFFFFFFFF, mem M Tmp_counter 2, mem M Tmp_counter 3)"
    by (simp add: handles Let_def tc_def)
  have e: "mem T Tmp 2 = mem T Tmp (Suc (Suc 0))"
    by (simp add: numeral_2_eq_2)
  show ?thesis
    using h e by (simp add: nk)
qed

lemma val_cursor_exhausted: "val cursor_exhausted m = (m Gen 8 = 0)"
  by (simp add: cursor_exhausted_def val_binop val_load val_const handles)

lemma mem_no_room:
  "mem (no_room M) Tmp =
     (if mem M Gen 8 = 0 then mem (new_key M) Tmp else mem (extend_path M) Tmp)"
proof -
  have "M\<lparr>faults := fold check (reads cursor_exhausted) (faults M)\<rparr> = M"
    by (simp add: cursor_exhausted_def binop_def load_def const_def check_def extents)
  then show ?thesis
    by (simp add: no_room_def if_scope_def Let_def val_cursor_exhausted)
qed

text \<open>
  C5. When word 7 of the state leaves room, \<open>counter[1] < 2^64 - 1 - n\<close>, and \<open>n\<close> is a
  positive multiple of 4, the successor state has \<open>counter[1] = state.counter[1] + n\<close>,
  without wrap-around, and \<open>counter[0] = 0\<close>. Here \<open>n\<close> is the value of
  \<^verbatim>\<open>out_len\<close>, the product of the shape in the width of its dimensions.
\<close>

theorem generate_counter_advances:
  assumes shape: "sint (out_len_of out_shape) = n"
    and n: "0 < n" "n mod 4 = 0"
    and room: "uint (mem M Gen 7) < 2 ^ 64 - 1 - n"
  shows "\<exists>M'. threefry_generate out_shape M = Inr M'
           \<and> mem M' Out_gen 7 = mem M Gen 7 + word_of_int n
           \<and> uint (mem M' Out_gen 7) = uint (mem M Gen 7) + n
           \<and> mem M' Out_gen 6 = 0"
proof -
  have le: "n \<le> 2 ^ 64 - 1"
    using room uint_ge_0 [of "mem M Gen 7"] by linarith
  have r: "val (has_room n) (mem M)"
    using has_room_iff [of n "mem M"] n le room by simp
  have t7: "mem (if_scope (has_room n) copy_state no_room M) Tmp 7 = mem M Gen 7"
    using r by (simp add: mem_if_scope mem_copy_state)
  have w7: "mem (generate_ir n M) Out_gen 7 = mem M Gen 7 + word_of_int n"
    by (simp add: mem_generate_ir Let_def t7)
  have w6: "mem (generate_ir n M) Out_gen 6 = 0"
    by (simp add: mem_generate_ir Let_def)
  have un: "uint (word_of_int n :: u64) = n"
    using n le by (simp add: uint_word_of_int take_bit_eq_mod)
  have u7: "uint (mem M Gen 7 + word_of_int n) = uint (mem M Gen 7) + n"
    using room un by (simp add: uint_plus_if_size word_size)
  show ?thesis
    using generate_valid [OF shape n(2) le, of M] w7 w6 u7 by simp
qed

text \<open>
  C6. With \<open>counter[1] = 2^64 - 1 - n\<close> the test for room fails and the program runs the
  else branch. When word 8 of the cursor is zero it hashes the key with the sentinel
  counter (the two words of \<^verbatim>\<open>tmp_counter\<close> and the two cells behind them) into a new
  key, with path \<open>0\<close> and cursor \<open>(1 << 63, 0)\<close>; otherwise it keeps the key, adds the
  cursor bit to the path and shifts the cursor. In both cases the counter restarts at
  zero: the successor's counter is \<open>n\<close>, not the reserved value \<open>2^64 - 1\<close> that
  \<open>counter[1] + n\<close> would be. (Word 9 of the cursor is shown in the hashed state
  \<open>Tmp\<close>.)
\<close>

theorem generate_exhausted_counter:
  assumes shape: "sint (out_len_of out_shape) = n"
    and n: "0 < n" "n mod 4 = 0" "n \<le> 2 ^ 64 - 1"
    and full: "uint (mem M Gen 7) = 2 ^ 64 - 1 - n"
  shows "\<not> val (has_room n) (mem M)
         \<and> if_scope (has_room n) copy_state no_room M = no_room M
         \<and> (\<exists>M'. threefry_generate out_shape M = Inr M'
               \<and> (if mem M Gen 8 = 0
                  then (mem M' Out_gen 0, mem M' Out_gen 1, mem M' Out_gen 2, mem M' Out_gen 3)
                         = block_fn (full_key_of (mem M Gen) 0)
                             (0xFFFFFFFFFFFFFFFF, 0xFFFFFFFFFFFFFFFF,
                              mem M Tmp_counter 2, mem M Tmp_counter 3)
                     \<and> mem M' Out_gen 4 = 0 \<and> mem M' Out_gen 5 = 0
                     \<and> mem M' Out_gen 8 = push_bit 63 1 \<and> mem M' Tmp 9 = 0
                  else (mem M' Out_gen 0, mem M' Out_gen 1, mem M' Out_gen 2, mem M' Out_gen 3)
                         = (mem M Gen 0, mem M Gen 1, mem M Gen 2, mem M Gen 3)
                     \<and> mem M' Out_gen 4 = mem M Gen 4 OR mem M Gen 8
                     \<and> mem M' Out_gen 5 = mem M Gen 5 OR mem M Gen 9
                     \<and> mem M' Out_gen 8
                           = (if mem M Gen 8 = 1 then 0 else drop_bit 1 (mem M Gen 8))
                     \<and> mem M' Tmp 9 = (if mem M Gen 8 = 1 then 0x8000000000000000 else 0))
               \<and> mem M' Tmp 7 = 0
               \<and> mem M' Out_gen 6 = 0
               \<and> mem M' Out_gen 7 = word_of_int n
               \<and> uint (mem M' Out_gen 7) = n
               \<and> mem M' Out_gen 7 \<noteq> 2 ^ 64 - 1)"
proof -
  define M' where "M' = generate_ir n M"
  have r: "\<not> val (has_room n) (mem M)"
    using has_room_iff [of n "mem M"] n full by simp
  have same: "M\<lparr>faults := fold check (reads (has_room n)) (faults M)\<rparr> = M"
    by (simp add: has_room_def binop_def load_def const_def check_def extents)
  have branch: "if_scope (has_room n) copy_state no_room M = no_room M"
    using r by (simp add: if_scope_def Let_def same)
  have tmp: "mem M' Tmp = mem (no_room M) Tmp"
    by (simp add: M'_def mem_generate_ir_tmp branch)
  have out: "mem M' Out_gen 0 = mem (no_room M) Tmp 0" "mem M' Out_gen 1 = mem (no_room M) Tmp 1"
    "mem M' Out_gen 2 = mem (no_room M) Tmp 2" "mem M' Out_gen 3 = mem (no_room M) Tmp 3"
    "mem M' Out_gen 4 = mem (no_room M) Tmp 4" "mem M' Out_gen 5 = mem (no_room M) Tmp 5"
    "mem M' Out_gen 8 = mem (no_room M) Tmp 8"
    "mem M' Out_gen (Suc 0) = mem (no_room M) Tmp (Suc 0)"
    by (simp_all add: M'_def mem_generate_ir Let_def branch)
  have t7: "mem M' Tmp 7 = 0"
    by (simp add: tmp mem_no_room_counter)
  have w6: "mem M' Out_gen 6 = 0"
    by (simp add: M'_def mem_generate_ir Let_def)
  have w7: "mem M' Out_gen 7 = word_of_int n"
    by (simp add: M'_def mem_generate_ir Let_def branch mem_no_room_counter)
  have un: "uint (word_of_int n :: u64) = n"
    using n by (simp add: uint_word_of_int take_bit_eq_mod)
  have odd: "n \<noteq> 2 ^ 64 - 1"
    using n(2) by auto
  have u7: "uint (mem M' Out_gen 7) = n"
    using w7 un by simp
  have ns: "mem M' Out_gen 7 \<noteq> 2 ^ 64 - 1"
  proof
    assume "mem M' Out_gen 7 = 2 ^ 64 - 1"
    then have "uint (mem M' Out_gen 7) = 2 ^ 64 - 1" by simp
    with u7 odd show False by simp
  qed
  have cases: "if mem M Gen 8 = 0
     then (mem M' Out_gen 0, mem M' Out_gen 1, mem M' Out_gen 2, mem M' Out_gen 3)
            = block_fn (full_key_of (mem M Gen) 0)
                (0xFFFFFFFFFFFFFFFF, 0xFFFFFFFFFFFFFFFF, mem M Tmp_counter 2, mem M Tmp_counter 3)
        \<and> mem M' Out_gen 4 = 0 \<and> mem M' Out_gen 5 = 0
        \<and> mem M' Out_gen 8 = push_bit 63 1 \<and> mem M' Tmp 9 = 0
     else (mem M' Out_gen 0, mem M' Out_gen 1, mem M' Out_gen 2, mem M' Out_gen 3)
            = (mem M Gen 0, mem M Gen 1, mem M Gen 2, mem M Gen 3)
        \<and> mem M' Out_gen 4 = mem M Gen 4 OR mem M Gen 8
        \<and> mem M' Out_gen 5 = mem M Gen 5 OR mem M Gen 9
        \<and> mem M' Out_gen 8 = (if mem M Gen 8 = 1 then 0 else drop_bit 1 (mem M Gen 8))
        \<and> mem M' Tmp 9 = (if mem M Gen 8 = 1 then 0x8000000000000000 else 0)"
  proof (cases "mem M Gen 8 = 0")
    case True
    then show ?thesis
      using mem_new_key_head [of M]
      by (simp add: out tmp mem_no_room mem_new_key_tail)
  next
    case False
    then show ?thesis
      by (simp add: out tmp mem_no_room mem_extend_path)
  qed
  have g: "threefry_generate out_shape M = Inr M'"
    unfolding M'_def by (rule generate_valid [OF shape n(2) n(3)])
  show ?thesis
    by (intro conjI exI [of _ M']) (rule r branch g cases t7 w6 w7 u7 ns)+
qed

theorem generate_counter_advances_witness:
  "\<exists>M'. threefry_generate [2, 4 :: 32 word]
           \<lparr>mem = (\<lambda>_ _. 0)(Gen := (\<lambda>_. 0)(0 := 1, 1 := 2, 2 := 3, 3 := 4, 7 := 7,
                                               8 := 0x8000000000000000)),
            faults = []\<rparr> = Inr M'
      \<and> mem M' Out_gen 7 = 15 \<and> uint (mem M' Out_gen 7) = 15 \<and> mem M' Out_gen 6 = 0"
proof -
  let ?M = "\<lparr>mem = (\<lambda>_ _. 0)(Gen := (\<lambda>_. 0)(0 := 1, 1 := 2, 2 := 3, 3 := 4, 7 := 7,
                                               8 := 0x8000000000000000)),
            faults = []\<rparr>"
  have s: "sint (out_len_of [2, 4 :: 32 word]) = 8"
    by (simp add: out_len_of_def)
  have r: "uint (mem ?M Gen 7) < 2 ^ 64 - 1 - 8"
    by simp
  show ?thesis
    using generate_counter_advances [OF s _ _ r] by simp
qed

lemma block_fn_rehash_example:
  "block_fn (full_key_of ((\<lambda>_. 0)(0 := 1, 1 := 2, 2 := 3, 3 := 4)) 0)
     (0xFFFFFFFFFFFFFFFF, 0xFFFFFFFFFFFFFFFF, 0, 0)
   = (4535595492191348933, 16131249416979758250, 14324913445894138061, 5863745771821796741)"
  by (simp add: block_fn_def block_stage_def block_inject_def block_round_def stored_mix_def
      full_key_of_def ROTATIONS_def)

theorem generate_exhausted_counter_witness:
  "(\<exists>M'. threefry_generate [8 :: 32 word]
            \<lparr>mem = (\<lambda>_ _. 0)(Gen := (\<lambda>_. 0)(0 := 1, 1 := 2, 2 := 3, 3 := 4, 5 := 0x40,
                                                7 := 0xFFFFFFFFFFFFFFF7, 9 := 0x20)),
             faults = []\<rparr> = Inr M'
       \<and> (mem M' Out_gen 0, mem M' Out_gen 1, mem M' Out_gen 2, mem M' Out_gen 3)
            = (4535595492191348933, 16131249416979758250, 14324913445894138061,
               5863745771821796741)
       \<and> mem M' Out_gen 4 = 0 \<and> mem M' Out_gen 5 = 0 \<and> mem M' Out_gen 7 = 8
       \<and> mem M' Out_gen 8 = 0x8000000000000000)
   \<and> (\<exists>M'. threefry_generate [8 :: 32 word]
            \<lparr>mem = (\<lambda>_ _. 0)(Gen := (\<lambda>_. 0)(0 := 1, 1 := 2, 2 := 3, 3 := 4,
                                                4 := 0x8000000000000000,
                                                7 := 0xFFFFFFFFFFFFFFF7,
                                                8 := 0x4000000000000000)),
             faults = []\<rparr> = Inr M'
       \<and> (mem M' Out_gen 0, mem M' Out_gen 1, mem M' Out_gen 2, mem M' Out_gen 3) = (1, 2, 3, 4)
       \<and> mem M' Out_gen 4 = 0xC000000000000000 \<and> mem M' Out_gen 5 = 0
       \<and> mem M' Out_gen 7 = 8 \<and> mem M' Out_gen 8 = 0x2000000000000000)"
proof -
  define A where "A = \<lparr>mem = (\<lambda>_ _. 0)(Gen := (\<lambda>_. 0)(0 := 1, 1 := 2, 2 := 3, 3 := 4, 5 := 0x40,
                                                7 := 0xFFFFFFFFFFFFFFF7, 9 := 0x20)),
             faults = []\<rparr>"
  define B where "B = \<lparr>mem = (\<lambda>_ _. 0)(Gen := (\<lambda>_. 0)(0 := 1, 1 := 2, 2 := 3, 3 := 4,
                                                4 := 0x8000000000000000,
                                                7 := 0xFFFFFFFFFFFFFFF7,
                                                8 := 0x4000000000000000)),
             faults = []\<rparr>"
  have s: "sint (out_len_of [8 :: 32 word]) = 8"
    by (simp add: out_len_of_def)
  have p: "(0 :: int) < 8" "(8 :: int) mod 4 = 0" "(8 :: int) \<le> 2 ^ 64 - 1"
    by simp_all
  have a: "uint (mem A Gen 7) = 2 ^ 64 - 1 - 8" and b: "uint (mem B Gen 7) = 2 ^ 64 - 1 - 8"
    by (simp_all add: A_def B_def)
  have za: "mem A Gen 8 = 0" and zb: "\<not> mem B Gen 8 = 0"
    by (simp_all add: A_def B_def)
  have ka: "full_key_of (mem A Gen) 0 = full_key_of ((\<lambda>_. 0)(0 := 1, 1 := 2, 2 := 3, 3 := 4)) 0"
    by (rule ext) (simp add: full_key_of_def A_def)
  have ta: "mem A Tmp_counter 2 = 0" "mem A Tmp_counter 3 = 0"
    by (simp_all add: A_def)
  have vb: "mem B Gen 0 = 1" "mem B Gen 1 = 2" "mem B Gen 2 = 3" "mem B Gen 3 = 4"
    "mem B Gen 4 OR mem B Gen 8 = 0xC000000000000000" "mem B Gen 5 OR mem B Gen 9 = 0"
    "(if mem B Gen 8 = 1 then 0 else drop_bit 1 (mem B Gen 8)) = 0x2000000000000000"
    by (simp_all add: B_def)
  have w: "word_of_int 8 = (8 :: u64)"
    by simp
  from generate_exhausted_counter [OF s p a] obtain Ma where
    ga: "threefry_generate [8 :: 32 word] A = Inr Ma"
    and ca: "if mem A Gen 8 = 0
       then (mem Ma Out_gen 0, mem Ma Out_gen 1, mem Ma Out_gen 2, mem Ma Out_gen 3)
              = block_fn (full_key_of (mem A Gen) 0)
                  (0xFFFFFFFFFFFFFFFF, 0xFFFFFFFFFFFFFFFF, mem A Tmp_counter 2, mem A Tmp_counter 3)
          \<and> mem Ma Out_gen 4 = 0 \<and> mem Ma Out_gen 5 = 0
          \<and> mem Ma Out_gen 8 = push_bit 63 1 \<and> mem Ma Tmp 9 = 0
       else (mem Ma Out_gen 0, mem Ma Out_gen 1, mem Ma Out_gen 2, mem Ma Out_gen 3)
              = (mem A Gen 0, mem A Gen 1, mem A Gen 2, mem A Gen 3)
          \<and> mem Ma Out_gen 4 = mem A Gen 4 OR mem A Gen 8
          \<and> mem Ma Out_gen 5 = mem A Gen 5 OR mem A Gen 9
          \<and> mem Ma Out_gen 8 = (if mem A Gen 8 = 1 then 0 else drop_bit 1 (mem A Gen 8))
          \<and> mem Ma Tmp 9 = (if mem A Gen 8 = 1 then 0x8000000000000000 else 0)"
    and wa: "mem Ma Out_gen 7 = word_of_int 8"
    by blast
  from ca have xa: "(mem Ma Out_gen 0, mem Ma Out_gen 1, mem Ma Out_gen 2, mem Ma Out_gen 3)
              = (4535595492191348933, 16131249416979758250, 14324913445894138061,
                 5863745771821796741)
          \<and> mem Ma Out_gen 4 = 0 \<and> mem Ma Out_gen 5 = 0
          \<and> mem Ma Out_gen 8 = push_bit 63 1 \<and> mem Ma Tmp 9 = 0"
    unfolding if_P [OF za] ka ta block_fn_rehash_example .
  have pa: "push_bit 63 1 = (0x8000000000000000 :: u64)"
    by simp
  from generate_exhausted_counter [OF s p b] obtain Mb where
    gb: "threefry_generate [8 :: 32 word] B = Inr Mb"
    and cb: "if mem B Gen 8 = 0
       then (mem Mb Out_gen 0, mem Mb Out_gen 1, mem Mb Out_gen 2, mem Mb Out_gen 3)
              = block_fn (full_key_of (mem B Gen) 0)
                  (0xFFFFFFFFFFFFFFFF, 0xFFFFFFFFFFFFFFFF, mem B Tmp_counter 2, mem B Tmp_counter 3)
          \<and> mem Mb Out_gen 4 = 0 \<and> mem Mb Out_gen 5 = 0
          \<and> mem Mb Out_gen 8 = push_bit 63 1 \<and> mem Mb Tmp 9 = 0
       else (mem Mb Out_gen 0, mem Mb Out_gen 1, mem Mb Out_gen 2, mem Mb Out_gen 3)
              = (mem B Gen 0, mem B Gen 1, mem B Gen 2, mem B Gen 3)
          \<and> mem Mb Out_gen 4 = mem B Gen 4 OR mem B Gen 8
          \<and> mem Mb Out_gen 5 = mem B Gen 5 OR mem B Gen 9
          \<and> mem Mb Out_gen 8 = (if mem B Gen 8 = 1 then 0 else drop_bit 1 (mem B Gen 8))
          \<and> mem Mb Tmp 9 = (if mem B Gen 8 = 1 then 0x8000000000000000 else 0)"
    and wb: "mem Mb Out_gen 7 = word_of_int 8"
    by blast
  from cb have xb: "(mem Mb Out_gen 0, mem Mb Out_gen 1, mem Mb Out_gen 2, mem Mb Out_gen 3)
              = (1, 2, 3, 4)
          \<and> mem Mb Out_gen 4 = 0xC000000000000000
          \<and> mem Mb Out_gen 5 = 0
          \<and> mem Mb Out_gen 8 = 0x2000000000000000
          \<and> mem Mb Tmp 9 = (if mem B Gen 8 = 1 then 0x8000000000000000 else 0)"
    unfolding if_not_P [OF zb] vb .
  show ?thesis
    unfolding A_def [symmetric] B_def [symmetric]
    using ga xa wa gb xb wb unfolding w pa by blast
qed

section \<open>The cursor of the successor state\<close>

lemma keeps_extend_path: "r \<noteq> Tmp \<Longrightarrow> keeps r extend_path"
  by (simp add: keeps_def mem_extend_path)

lemma keeps_copy_state: "r \<noteq> Tmp \<Longrightarrow> keeps r copy_state"
  by (simp add: keeps_def mem_copy_state)

lemma keeps_prepare:
  assumes "r \<noteq> Tmp" "r \<noteq> Tmp_counter" "r \<noteq> Threefry_tmp" "r \<noteq> Full_key"
  shows "keeps r (if_scope (has_room n) copy_state no_room)"
  unfolding no_room_def using assms
  by (intro keeps_if_scope keeps_copy_state keeps_extend_path keeps_new_key)

lemma generate_word9: "mem (generate_ir n M) Out_gen 9 = mem M Out_gen 9"
  using keeps_prepare [of Out_gen n] by (simp add: mem_generate_ir Let_def keeps_def)

text \<open>
  C1. The successor state should carry both cursor words of the hashed state. The program
  stores \<open>out_gen[8]\<close> and never \<open>out_gen[9]\<close>: from a state whose cursor is
  \<open>(0, 32)\<close>, with room in the counter and a zeroed output buffer, the hashed state has
  cursor \<open>(0, 32)\<close> and the successor has \<open>(0, 0)\<close>.
\<close>

theorem generate_drops_cursor_word:
  "\<exists>M'. threefry_generate [4 :: 32 word]
           \<lparr>mem = (\<lambda>_ _. 0)(Gen := (\<lambda>_. 0)(9 := 32)), faults = []\<rparr> = Inr M'
      \<and> mem M' Tmp 8 = 0 \<and> mem M' Tmp 9 = 32
      \<and> mem M' Out_gen 8 = 0 \<and> mem M' Out_gen 9 = 0"
proof -
  let ?M = "\<lparr>mem = (\<lambda>_ _. 0)(Gen := (\<lambda>_. 0)(9 := 32)), faults = []\<rparr>"
  have v: "threefry_generate [4 :: 32 word] ?M = Inr (generate_ir 4 ?M)"
    by (rule generate_valid) (simp_all add: out_len_of_def)
  have r: "val (has_room 4) (mem ?M)"
    by (simp add: val_has_room)
  have t: "mem (if_scope (has_room 4) copy_state no_room ?M) Tmp = (\<lambda>_. 0)(9 := 32)"
    using r by (auto simp: mem_if_scope mem_copy_state)
  have "mem (generate_ir 4 ?M) Tmp 8 = 0" "mem (generate_ir 4 ?M) Tmp 9 = 32"
    "mem (generate_ir 4 ?M) Out_gen 8 = 0"
    by (simp_all add: mem_generate_ir_tmp mem_generate_ir Let_def t)
  moreover have "mem (generate_ir 4 ?M) Out_gen 9 = 0"
    by (simp add: generate_word9)
  ultimately show ?thesis using v by simp
qed

section \<open>Splitting\<close>

lemma mem_split_extend_path:
  "mem (split_extend_path M) Out_left =
     (mem M Out_left)
       (0 := mem M Gen 0, 1 := mem M Gen 1, 2 := mem M Gen 2, 3 := mem M Gen 3,
        4 := mem M Gen 4, 5 := mem M Gen 5, 6 := mem M Gen 6, 7 := mem M Gen 7,
        8 := (if mem M Gen 8 = 1 \<or> mem M Gen 8 = 0 then 0 else drop_bit 1 (mem M Gen 8)),
        9 := (if mem M Gen 8 = 1 then 0x8000000000000000
              else if mem M Gen 8 = 0 then drop_bit 1 (mem M Gen 9) else 0))"
  "mem (split_extend_path M) Out_right =
     (mem M Out_right)
       (0 := mem M Gen 0, 1 := mem M Gen 1, 2 := mem M Gen 2, 3 := mem M Gen 3,
        4 := mem M Gen 4 OR mem M Gen 8, 5 := mem M Gen 5 OR mem M Gen 9,
        6 := mem M Gen 6, 7 := mem M Gen 7,
        8 := (if mem M Gen 8 = 1 \<or> mem M Gen 8 = 0 then 0 else drop_bit 1 (mem M Gen 8)),
        9 := (if mem M Gen 8 = 1 then 0x8000000000000000
              else if mem M Gen 8 = 0 then drop_bit 1 (mem M Gen 9) else 0))"
proof -
  define A where "A = seq [store out_left 0 (load gen 0),
          store out_left 1 (load gen 1),
          store out_left 2 (load gen 2),
          store out_left 3 (load gen 3),
          store out_left 4 (load gen 4),
          store out_left 5 (load gen 5),
          store out_left 6 (load gen 6),
          store out_left 7 (load gen 7)] M"
  define B where "B = shift_right (load gen 8) (load gen 9) out_left 8 out_left 9 A"
  define C where "C = seq [store out_right 0 (load gen 0),
          store out_right 1 (load gen 1),
          store out_right 2 (load gen 2),
          store out_right 3 (load gen 3),
          store out_right 4 (binop (OR) (load gen 4) (load gen 8)),
          store out_right 5 (binop (OR) (load gen 5) (load gen 9)),
          store out_right 6 (load gen 6),
          store out_right 7 (load gen 7)] B"
  have D: "split_extend_path M = shift_right (load gen 8) (load gen 9) out_right 8 out_right 9 C"
    by (simp add: split_extend_path_def A_def B_def C_def seq_Cons seq_Nil)
  have a: "mem A = (mem M)(Out_left := (mem M Out_left)
       (0 := mem M Gen 0, 1 := mem M Gen 1, 2 := mem M Gen 2, 3 := mem M Gen 3,
        4 := mem M Gen 4, 5 := mem M Gen 5, 6 := mem M Gen 6, 7 := mem M Gen 7))"
    by (simp add: A_def seq_Cons seq_Nil mem_store val_load handles)
  have b_other: "mem B r = mem A r" if "r \<noteq> Out_left" for r
    unfolding B_def using keeps_shift_right [of out_left r out_left] that
    by (simp add: keeps_def handles)
  have b_left: "mem B Out_left = (mem A Out_left)
       (8 := (if mem A Gen 8 = 1 \<or> mem A Gen 8 = 0 then 0 else drop_bit 1 (mem A Gen 8)),
        9 := (if mem A Gen 8 = 1 then 0x8000000000000000
              else if mem A Gen 8 = 0 then drop_bit 1 (mem A Gen 9) else 0))"
    unfolding B_def using mem_shift_right [of Gen out_left 10 A] by (simp add: handles gen_def)
  have c: "mem C = (mem B)(Out_right := (mem B Out_right)
       (0 := mem B Gen 0, 1 := mem B Gen 1, 2 := mem B Gen 2, 3 := mem B Gen 3,
        4 := mem B Gen 4 OR mem B Gen 8, 5 := mem B Gen 5 OR mem B Gen 9,
        6 := mem B Gen 6, 7 := mem B Gen 7))"
    by (simp add: C_def seq_Cons seq_Nil mem_store val_load val_binop handles)
  have d_other: "mem (split_extend_path M) r = mem C r" if "r \<noteq> Out_right" for r
    unfolding D using keeps_shift_right [of out_right r out_right] that
    by (simp add: keeps_def handles)
  have d_right: "mem (split_extend_path M) Out_right = (mem C Out_right)
       (8 := (if mem C Gen 8 = 1 \<or> mem C Gen 8 = 0 then 0 else drop_bit 1 (mem C Gen 8)),
        9 := (if mem C Gen 8 = 1 then 0x8000000000000000
              else if mem C Gen 8 = 0 then drop_bit 1 (mem C Gen 9) else 0))"
    unfolding D using mem_shift_right [of Gen out_right 10 C] by (simp add: handles gen_def)
  have gen_B: "mem B Gen = mem M Gen" and right_B: "mem B Out_right = mem M Out_right"
    by (simp_all add: b_other a)
  have gen_A: "mem A Gen = mem M Gen" and left_A: "mem A Out_left = (mem M Out_left)
       (0 := mem M Gen 0, 1 := mem M Gen 1, 2 := mem M Gen 2, 3 := mem M Gen 3,
        4 := mem M Gen 4, 5 := mem M Gen 5, 6 := mem M Gen 6, 7 := mem M Gen 7)"
    by (simp_all add: a)
  have gen_C: "mem C Gen = mem M Gen"
    by (simp add: c gen_B)
  show "mem (split_extend_path M) Out_left =
     (mem M Out_left)
       (0 := mem M Gen 0, 1 := mem M Gen 1, 2 := mem M Gen 2, 3 := mem M Gen 3,
        4 := mem M Gen 4, 5 := mem M Gen 5, 6 := mem M Gen 6, 7 := mem M Gen 7,
        8 := (if mem M Gen 8 = 1 \<or> mem M Gen 8 = 0 then 0 else drop_bit 1 (mem M Gen 8)),
        9 := (if mem M Gen 8 = 1 then 0x8000000000000000
              else if mem M Gen 8 = 0 then drop_bit 1 (mem M Gen 9) else 0))"
    by (simp add: d_other c b_left gen_A left_A)
  show "mem (split_extend_path M) Out_right =
     (mem M Out_right)
       (0 := mem M Gen 0, 1 := mem M Gen 1, 2 := mem M Gen 2, 3 := mem M Gen 3,
        4 := mem M Gen 4 OR mem M Gen 8, 5 := mem M Gen 5 OR mem M Gen 9,
        6 := mem M Gen 6, 7 := mem M Gen 7,
        8 := (if mem M Gen 8 = 1 \<or> mem M Gen 8 = 0 then 0 else drop_bit 1 (mem M Gen 8)),
        9 := (if mem M Gen 8 = 1 then 0x8000000000000000
              else if mem M Gen 8 = 0 then drop_bit 1 (mem M Gen 9) else 0))"
    by (simp add: d_right c gen_C gen_B right_B)
qed

lemma mem_split_new_key:
  "mem (split_new_key M) Out_left 4 = 0" "mem (split_new_key M) Out_left 5 = 0"
  "mem (split_new_key M) Out_left 8 = push_bit 62 1" "mem (split_new_key M) Out_left 9 = 0"
  "mem (split_new_key M) Out_right 4 = push_bit 63 1" "mem (split_new_key M) Out_right 5 = 0"
  "mem (split_new_key M) Out_right 8 = push_bit 62 1" "mem (split_new_key M) Out_right 9 = 0"
  by (simp_all add: split_new_key_def seq_Cons seq_Nil mem_store_at val_load val_const handles)



lemma mem_threefry_split:
  "mem (threefry_split M) =
     (if mem M Gen 8 = 0 then mem (split_new_key M) else mem (split_extend_path M))"
proof -
  have "M\<lparr>faults := fold check (reads cursor_exhausted) (faults M)\<rparr> = M"
    by (simp add: cursor_exhausted_def binop_def load_def const_def check_def extents)
  then show ?thesis
    by (simp add: threefry_split_def if_scope_def Let_def val_cursor_exhausted)
qed







section \<open>Accesses beyond the buffers\<close>

lemma faults_if_scope:
  "faults (if_scope c f g M) =
     (if val c (mem M) then faults (f (M\<lparr>faults := fold check (reads c) (faults M)\<rparr>))
      else faults (g (M\<lparr>faults := fold check (reads c) (faults M)\<rparr>)))"
  by (simp add: if_scope_def Let_def)

text \<open>
  C9. Every access should stay inside its buffer. From a state with no room in the
  counter and an exhausted cursor (request of 4 words), the run reads
  \<^verbatim>\<open>tmp_counter[2]\<close> and \<^verbatim>\<open>tmp_counter[3]\<close> of a buffer allocated with 2 elements,
  and accesses indices 1, 2 and 3 of the permutation buffer that \<^verbatim>\<open>_threefry\<close>
  allocates with \<^verbatim>\<open>out_shape = 1\<close> element.
\<close>

theorem generate_rehash_overruns:
  "\<exists>M'. threefry_generate [4 :: 32 word]
           \<lparr>mem = (\<lambda>_ _. 0)(Gen := (\<lambda>_. 0)(7 := 0xFFFFFFFFFFFFFFFB)), faults = []\<rparr> = Inr M'
      \<and> faults M' = [(Threefry_tmp, 3), (Threefry_tmp, 2), (Threefry_tmp, 1),
                      (Tmp_counter, 3), (Tmp_counter, 2)]"
proof -
  let ?M = "\<lparr>mem = (\<lambda>_ _. 0)(Gen := (\<lambda>_. 0)(7 := 0xFFFFFFFFFFFFFFFB)), faults = []\<rparr>"
  have v: "threefry_generate [4 :: 32 word] ?M = Inr (generate_ir 4 ?M)"
    by (rule generate_valid) (simp_all add: out_len_of_def)
  have r: "\<not> val (has_room 4) (mem ?M)" "val cursor_exhausted (mem ?M)"
    by (simp_all add: val_has_room val_cursor_exhausted)
  have "faults (generate_ir 4 ?M) = [(Threefry_tmp, 3), (Threefry_tmp, 2), (Threefry_tmp, 1),
                      (Tmp_counter, 3), (Tmp_counter, 2)]"
    using r
    by (simp add: generate_ir_def no_room_def new_key_def update_state_def faults_if_scope
      threefry_def Let_def for_range_def block_body_def stage_def mix_round_def
      permute_word_def swap_bufs_def mix_pair_def mix_def inject_key_def key_schedule_def
      emit_def init_counter_def init_full_key_def seq_Cons seq_Nil faults_store
      nwords_def nrounds_def iwidth_def upts allocate_def gen_def out_gen_def out_array_def
      state_tmp_def has_room_def cursor_exhausted_def
      load_def const_def binop_def unop_def check_def PERMUTATIONS_def ROTATIONS_def)
  then show ?thesis using v by simp
qed

section \<open>The cursor invariant\<close>

text \<open>
  C8. The cursor of a state should keep at most one bit set. From a state with the
  one-hot cursor \<open>(1 << 63, 0)\<close>, written into an output buffer whose word 9 holds 3
  from an earlier use, the successor's cursor is \<open>(1 << 63, 3)\<close>: three bits.
\<close>

theorem generate_breaks_cursor_invariant:
  "cursor_popcount
     (mem \<lparr>mem = (\<lambda>_ _. 0)(Gen := (\<lambda>_. 0)(8 := 0x8000000000000000),
                               Out_gen := (\<lambda>_. 0)(9 := 3)), faults = []\<rparr>) Gen = 1
   \<and> (\<exists>M'. threefry_generate [4 :: 32 word]
              \<lparr>mem = (\<lambda>_ _. 0)(Gen := (\<lambda>_. 0)(8 := 0x8000000000000000),
                                  Out_gen := (\<lambda>_. 0)(9 := 3)), faults = []\<rparr> = Inr M'
         \<and> mem M' Out_gen 8 = 0x8000000000000000 \<and> mem M' Out_gen 9 = 3
         \<and> cursor_popcount (mem M') Out_gen = 3)"
proof -
  let ?M = "\<lparr>mem = (\<lambda>_ _. 0)(Gen := (\<lambda>_. 0)(8 := 0x8000000000000000),
                               Out_gen := (\<lambda>_. 0)(9 := 3)), faults = []\<rparr>"
  have p: "popcount 0x8000000000000000 = 1" "popcount 3 = 2" "popcount 0 = 0"
    by code_simp+
  have v: "threefry_generate [4 :: 32 word] ?M = Inr (generate_ir 4 ?M)"
    by (rule generate_valid) (simp_all add: out_len_of_def)
  have r: "val (has_room 4) (mem ?M)"
    by (simp add: val_has_room)
  have t: "mem (if_scope (has_room 4) copy_state no_room ?M) Tmp 8 = 0x8000000000000000"
    using r by (simp add: mem_if_scope mem_copy_state)
  have w8: "mem (generate_ir 4 ?M) Out_gen 8 = 0x8000000000000000"
    by (simp add: mem_generate_ir Let_def t)
  have w9: "mem (generate_ir 4 ?M) Out_gen 9 = 3"
    by (simp add: generate_word9)
  have "cursor_popcount (mem ?M) Gen = 1"
    by (simp add: cursor_popcount_def p)
  moreover have "cursor_popcount (mem (generate_ir 4 ?M)) Out_gen = 3"
    by (simp add: cursor_popcount_def w8 w9 p)
  ultimately show ?thesis using v w8 w9 by simp
qed

text \<open>The split does keep the invariant, for both children.\<close>

lemma popcount_card: "popcount w = card {i. bit w i}"
proof -
  have "{i. bit w i} = set (filter (bit w) [0..<64])"
    by (auto dest: bit_imp_le_length)
  moreover have "card (set (filter (bit w) [0..<64])) = length (filter (bit w) [0..<64])"
    by (rule distinct_card) simp
  ultimately show ?thesis
    by (simp only: popcount_def)
qed

lemma popcount_drop_bit: "popcount (drop_bit 1 w) \<le> popcount w"
proof -
  have fin: "finite {i. bit w i}"
    using finite_subset [of "{i. bit w i}" "{..<64}"] by (auto dest: bit_imp_le_length)
  have "{i. bit (drop_bit 1 w) i} = {i. bit w (Suc i)}"
    by (simp add: bit_drop_bit_eq)
  moreover have "card {i. bit w (Suc i)} = card (Suc ` {i. bit w (Suc i)})"
    by (simp add: card_image)
  moreover have "Suc ` {i. bit w (Suc i)} \<subseteq> {i. bit w i}"
    by auto
  ultimately show ?thesis
    using card_mono [OF fin, of "Suc ` {i. bit w (Suc i)}"] by (simp add: popcount_card)
qed

lemma split_keeps_cursor:
  assumes "cursor_popcount (mem M) Gen \<le> 1"
  shows "cursor_popcount (mem (threefry_split M)) Out_left \<le> 1"
    and "cursor_popcount (mem (threefry_split M)) Out_right \<le> 1"
proof -
  have p: "popcount 0x8000000000000000 = 1" "popcount 0x4000000000000000 = 1" "popcount 0 = 0"
    by code_simp+
  have a: "popcount (mem M Gen 8) \<le> 1" "popcount (mem M Gen 9) \<le> 1"
    using assms by (simp_all add: cursor_popcount_def)
  have d: "popcount (drop_bit 1 (mem M Gen 8)) \<le> 1" "popcount (drop_bit 1 (mem M Gen 9)) \<le> 1"
    using a popcount_drop_bit [of "mem M Gen 8"] popcount_drop_bit [of "mem M Gen 9"]
    by linarith+
  show "cursor_popcount (mem (threefry_split M)) Out_left \<le> 1"
    using d by (simp add: cursor_popcount_def mem_threefry_split mem_split_new_key
        mem_split_extend_path p)
  show "cursor_popcount (mem (threefry_split M)) Out_right \<le> 1"
    using d by (simp add: cursor_popcount_def mem_threefry_split mem_split_new_key
        mem_split_extend_path p)
qed

section \<open>scatter_nd: collisions and the bounds assertion\<close>

text \<open>
  C2. Colliding multi-indices should be summed. With \<open>data = [1, 2]\<close>, both indices 0
  and an output of one element, the result holds 2, the value written last, not 3.
\<close>

theorem scatter_nd_overwrites:
  "\<exists>out. scatter_nd ((\<lambda>_. 0)(0 := 1, 1 := 2 :: int)) [2] (\<lambda>_. 0) [1, 2] [1] (\<lambda>_. 7) = Inr out
      \<and> out 0 = 2 \<and> out 0 \<noteq> 1 + 2"
  by (simp add: scatter_nd_def check_args_def dim_eq_def scatter_ir_def scatter_one_def
      index_step_def fused_def upts Let_def)














end
